theory Spec2Isabelle
  imports Complex_Main "HOL-Library.Char_ord" "HOL-Library.List_Lexorder"
begin

section \<open>Data model (types.ts)\<close>

text \<open>
  JavaScript numbers that come out of \<^verbatim>\<open>JSON.parse\<close> are finite; they are modelled
  as exact rationals (rounding of IEEE doubles and the sign of zero are not modelled).
  The non-finite results of a division are added where the code divides
  (\<open>jsnum\<close> below). Strings are byte strings; text outside ASCII is written as its
  UTF-8 bytes. Record fields carry a prefix naming their interface where several
  interfaces share a field name (\<^verbatim>\<open>id\<close>, \<^verbatim>\<open>category\<close>, \<^verbatim>\<open>name\<close>).
\<close>

datatype TransactionType = EXPENSE | INCOME

text \<open>
  \<^verbatim>\<open>description\<close> is optional here although the interface declares it: the object
  stored by the chat turn is the parser's partial object after an unchecked cast.
\<close>

record Transaction =
  t_id :: string
  t_date :: string
  t_type :: TransactionType
  t_amount :: rat
  t_category :: string
  t_description :: "string option"
  t_merchant :: "string option"
  t_paymentMethod :: "string option"

datatype Period = MONTHLY | WEEKLY | YEARLY

record Budget =
  b_id :: string
  b_category :: string
  b_limit :: rat
  b_period :: Period
  b_spent :: "rat option"

record Goal =
  g_id :: string
  g_name :: string
  g_targetAmount :: rat
  g_currentAmount :: rat
  g_deadline :: "string option"

datatype Role = User | Assistant | System

record ChatMessage =
  m_id :: string
  m_role :: Role
  m_content :: string
  m_timestamp :: int
  m_relatedTransactionId :: "string option"

record CategoryEntry =
  name :: string
  "value" :: rat

record CashflowEntry =
  cf_name :: string
  income :: rat
  expense :: rat

record DailyEntry =
  date :: string
  amount :: rat
  originalDate :: string

record FinancialSummary =
  totalIncome :: rat
  totalExpense :: rat
  balance :: rat
  expensesByCategory :: "CategoryEntry list"
  monthlyCashflow :: "CashflowEntry list"
  dailyExpenses :: "DailyEntry list"

section \<open>The record store (services/dataService.ts)\<close>

text \<open>
  \<^verbatim>\<open>localStorage\<close> restricted to the three keys of \<^verbatim>\<open>STORAGE_KEYS\<close>. \<open>None\<close> is an
  absent key (\<^verbatim>\<open>getItem\<close> returns null); \<open>Some xs\<close> is the key holding the JSON text
  of \<open>xs\<close>. The JSON text of an array is never the empty string, so
  \<^verbatim>\<open>!localStorage.getItem(k)\<close> holds exactly for an absent key.
\<close>

record Storage =
  finai_transactions :: "Transaction list option"
  finai_budgets :: "Budget list option"
  finai_goals :: "Goal list option"

definition getTransactions :: "Storage \<Rightarrow> Transaction list" where
  "getTransactions s = (case finai_transactions s of Some xs \<Rightarrow> xs | None \<Rightarrow> [])"

definition getBudgets :: "Storage \<Rightarrow> Budget list" where
  "getBudgets s = (case finai_budgets s of Some xs \<Rightarrow> xs | None \<Rightarrow> [])"

definition getGoals :: "Storage \<Rightarrow> Goal list" where
  "getGoals s = (case finai_goals s of Some xs \<Rightarrow> xs | None \<Rightarrow> [])"

text \<open>\<^verbatim>\<open>Array.prototype.findIndex\<close>: the first index whose element satisfies the
  predicate; \<open>None\<close> stands for the result \<^verbatim>\<open>-1\<close>.\<close>

fun findIndex :: "('a \<Rightarrow> bool) \<Rightarrow> 'a list \<Rightarrow> nat option" where
  "findIndex p [] = None"
| "findIndex p (x # xs) =
     (if p x then Some 0 else (case findIndex p xs of None \<Rightarrow> None | Some i \<Rightarrow> Some (Suc i)))"

definition addTransaction :: "Transaction \<Rightarrow> Storage \<Rightarrow> Storage" where
  "addTransaction transaction s =
     s\<lparr>finai_transactions := Some (getTransactions s @ [transaction])\<rparr>"

definition updateTransaction :: "Transaction \<Rightarrow> Storage \<Rightarrow> Storage" where
  "updateTransaction updatedTransaction s =
     (let transactions = getTransactions s in
      case findIndex (\<lambda>t. t_id t = t_id updatedTransaction) transactions of
        Some index \<Rightarrow> s\<lparr>finai_transactions := Some (transactions[index := updatedTransaction])\<rparr>
      | None \<Rightarrow> s)"

definition deleteTransaction :: "string \<Rightarrow> Storage \<Rightarrow> Storage" where
  "deleteTransaction i s =
     s\<lparr>finai_transactions := Some (filter (\<lambda>t. t_id t \<noteq> i) (getTransactions s))\<rparr>"

definition addBudget :: "Budget \<Rightarrow> Storage \<Rightarrow> Storage" where
  "addBudget budget s = s\<lparr>finai_budgets := Some (getBudgets s @ [budget])\<rparr>"

definition updateBudget :: "Budget \<Rightarrow> Storage \<Rightarrow> Storage" where
  "updateBudget updatedBudget s =
     (let budgets = getBudgets s in
      case findIndex (\<lambda>b. b_id b = b_id updatedBudget) budgets of
        Some index \<Rightarrow> s\<lparr>finai_budgets := Some (budgets[index := updatedBudget])\<rparr>
      | None \<Rightarrow> s)"

definition deleteBudget :: "string \<Rightarrow> Storage \<Rightarrow> Storage" where
  "deleteBudget i s = s\<lparr>finai_budgets := Some (filter (\<lambda>b. b_id b \<noteq> i) (getBudgets s))\<rparr>"

definition addGoal :: "Goal \<Rightarrow> Storage \<Rightarrow> Storage" where
  "addGoal goal s = s\<lparr>finai_goals := Some (getGoals s @ [goal])\<rparr>"

definition updateGoal :: "Goal \<Rightarrow> Storage \<Rightarrow> Storage" where
  "updateGoal updatedGoal s =
     (let goals = getGoals s in
      case findIndex (\<lambda>g. g_id g = g_id updatedGoal) goals of
        Some index \<Rightarrow> s\<lparr>finai_goals := Some (goals[index := updatedGoal])\<rparr>
      | None \<Rightarrow> s)"

definition deleteGoal :: "string \<Rightarrow> Storage \<Rightarrow> Storage" where
  "deleteGoal i s = s\<lparr>finai_goals := Some (filter (\<lambda>g. g_id g \<noteq> i) (getGoals s))\<rparr>"

definition resetData :: "Storage \<Rightarrow> Storage" where
  "resetData s = s\<lparr>finai_transactions := Some [], finai_budgets := Some [], finai_goals := Some []\<rparr>"

subsection \<open>Seeding\<close>

text \<open>
  The seed records. \<open>isoOfDay d\<close> stands for
  \<^verbatim>\<open>new Date(today.getFullYear(), today.getMonth(), d).toISOString()\<close>, which depends
  on the clock and the time zone of the browser.
\<close>

definition seedTransactions :: "(nat \<Rightarrow> string) \<Rightarrow> Transaction list" where
  "seedTransactions isoOfDay =
    [\<lparr>t_id = ''1'', t_date = isoOfDay 5, t_type = INCOME, t_amount = 5000,
       t_category = ''Sal'' @ [CHR 0xC3, CHR 0xA1] @ ''rio'',
       t_description = Some (''Sal'' @ [CHR 0xC3, CHR 0xA1] @ ''rio Mensal''),
       t_merchant = None, t_paymentMethod = None\<rparr>,
     \<lparr>t_id = ''2'', t_date = isoOfDay 6, t_type = EXPENSE, t_amount = 120,
       t_category = ''Contas'', t_description = Some ''Conta de Luz'',
       t_merchant = None, t_paymentMethod = None\<rparr>,
     \<lparr>t_id = ''3'', t_date = isoOfDay 8, t_type = EXPENSE, t_amount = 65,
       t_category = ''Alimenta'' @ [CHR 0xC3, CHR 0xA7, CHR 0xC3, CHR 0xA3] @ ''o'',
       t_description = Some (''Jantar no Mario'' @ [CHR 0x27] @ ''s''),
       t_merchant = None, t_paymentMethod = None\<rparr>,
     \<lparr>t_id = ''4'', t_date = isoOfDay 10, t_type = EXPENSE, t_amount = 200,
       t_category = ''Transporte'', t_description = Some ''Uber'',
       t_merchant = None, t_paymentMethod = None\<rparr>,
     \<lparr>t_id = ''5'', t_date = isoOfDay 12, t_type = EXPENSE, t_amount = 450,
       t_category = ''Alimenta'' @ [CHR 0xC3, CHR 0xA7, CHR 0xC3, CHR 0xA3] @ ''o'',
       t_description = Some (''Compras do M'' @ [CHR 0xC3, CHR 0xAA] @ ''s''),
       t_merchant = None, t_paymentMethod = None\<rparr>,
     \<lparr>t_id = ''6'', t_date = isoOfDay 15, t_type = EXPENSE, t_amount = 150,
       t_category = ''Lazer'', t_description = Some ''Cinema e Pipoca'',
       t_merchant = None, t_paymentMethod = None\<rparr>]"

definition seedBudgets :: "Budget list" where
  "seedBudgets =
    [\<lparr>b_id = ''1'', b_category = ''Alimenta'' @ [CHR 0xC3, CHR 0xA7, CHR 0xC3, CHR 0xA3] @ ''o'',
       b_limit = 800, b_period = MONTHLY, b_spent = None\<rparr>,
     \<lparr>b_id = ''2'', b_category = ''Transporte'', b_limit = 400, b_period = MONTHLY,
       b_spent = None\<rparr>,
     \<lparr>b_id = ''3'', b_category = ''Lazer'', b_limit = 300, b_period = MONTHLY,
       b_spent = None\<rparr>]"

definition seedGoals :: "Goal list" where
  "seedGoals =
    [\<lparr>g_id = ''1'', g_name = ''Viagem Europa'', g_targetAmount = 5000, g_currentAmount = 1500,
       g_deadline = Some ''2024-12-31''\<rparr>,
     \<lparr>g_id = ''2'', g_name = ''Reserva de Emerg'' @ [CHR 0xC3, CHR 0xAA] @ ''ncia'',
       g_targetAmount = 10000, g_currentAmount = 8000, g_deadline = None\<rparr>]"

definition seedData :: "(nat \<Rightarrow> string) \<Rightarrow> Storage \<Rightarrow> Storage" where
  "seedData isoOfDay s =
     (let s1 = (if finai_transactions s = None
                then s\<lparr>finai_transactions := Some (seedTransactions isoOfDay)\<rparr> else s);
          s2 = (if finai_budgets s1 = None then s1\<lparr>finai_budgets := Some seedBudgets\<rparr> else s1);
          s3 = (if finai_goals s2 = None then s2\<lparr>finai_goals := Some seedGoals\<rparr> else s2)
      in s3)"

section \<open>Properties of the record store\<close>

lemma findIndex_None_iff: "findIndex p xs = None \<longleftrightarrow> (\<forall>x \<in> set xs. \<not> p x)"
  by (induction xs) (auto split: option.splits)

lemma findIndex_Some_first:
  "findIndex p xs = Some i \<Longrightarrow> i < length xs \<and> p (xs ! i) \<and> (\<forall>j < i. \<not> p (xs ! j))"
proof (induction xs arbitrary: i)
  case Nil
  then show ?case by simp
next
  case (Cons x xs)
  show ?case
  proof (cases "p x")
    case True
    with Cons.prems show ?thesis by simp
  next
    case False
    with Cons.prems obtain k where k: "findIndex p xs = Some k" "i = Suc k"
      by (auto split: option.splits)
    from Cons.IH [OF k(1)] have ih: "k < length xs" "p (xs ! k)" "\<forall>j < k. \<not> p (xs ! j)"
      by simp_all
    show ?thesis
    proof (intro conjI allI impI)
      show "i < length (x # xs)" using ih(1) k(2) by simp
      show "p ((x # xs) ! i)" using ih(2) k(2) by simp
      fix j assume "j < i"
      then show "\<not> p ((x # xs) ! j)"
        using False ih(3) k(2) by (cases j) auto
    qed
  qed
qed

lemma findIndex_Some_ex: "\<exists>x \<in> set xs. p x \<Longrightarrow> \<exists>i. findIndex p xs = Some i"
  using findIndex_None_iff [of p xs] by (cases "findIndex p xs") auto

text \<open>Contrast for the reset: on a store whose keys are absent the seeding routine
  fills all three collections.\<close>

lemma seedData_absent_keys:
  "seedData d \<lparr>finai_transactions = None, finai_budgets = None, finai_goals = None\<rparr> =
     \<lparr>finai_transactions = Some (seedTransactions d), finai_budgets = Some seedBudgets,
      finai_goals = Some seedGoals\<rparr>"
  by (simp add: seedData_def)

text \<open>Claim C9. After \<open>resetData\<close> the three collections read back as empty lists, the
  three keys are present and hold the empty array (they are not removed), and running
  the seeding routine afterwards changes nothing.\<close>

theorem resetData_empty_not_reseeded:
  "getTransactions (resetData s) = [] \<and> getBudgets (resetData s) = [] \<and>
   getGoals (resetData s) = [] \<and>
   finai_transactions (resetData s) = Some [] \<and> finai_budgets (resetData s) = Some [] \<and>
   finai_goals (resetData s) = Some [] \<and>
   seedData d (resetData s) = resetData s"
  by (simp add: resetData_def getTransactions_def getBudgets_def getGoals_def seedData_def)

subsection \<open>Updates by id\<close>

text \<open>\<open>replacesFirst key u old new\<close>: \<open>new\<close> is \<open>old\<close> with the first element whose key
  is that of \<open>u\<close> replaced by \<open>u\<close>; length, order and every other element are kept.\<close>

definition replacesFirst :: "('a \<Rightarrow> string) \<Rightarrow> 'a \<Rightarrow> 'a list \<Rightarrow> 'a list \<Rightarrow> bool" where
  "replacesFirst key u old new \<longleftrightarrow>
     (\<exists>i < length old. key (old ! i) = key u \<and> (\<forall>j < i. key (old ! j) \<noteq> key u) \<and>
        length new = length old \<and> new ! i = u \<and>
        (\<forall>j < length old. j \<noteq> i \<longrightarrow> new ! j = old ! j))"

lemma replacesFirst_list_update:
  assumes "findIndex (\<lambda>x. key x = key u) xs = Some i"
  shows "replacesFirst key u xs (xs[i := u])"
proof -
  from findIndex_Some_first [OF assms]
  have "i < length xs" "key (xs ! i) = key u" "\<forall>j < i. key (xs ! j) \<noteq> key u"
    by simp_all
  then show ?thesis
    unfolding replacesFirst_def by (intro exI [of _ i]) simp
qed

lemma replacesFirst_unique:
  assumes "replacesFirst key u old new" and "distinct (map key old)"
    and "j < length old" and "key (old ! j) \<noteq> key u"
  shows "new ! j = old ! j"
  using assms unfolding replacesFirst_def by metis

lemma updateTransaction_absent:
  "t_id u \<notin> t_id ` set (getTransactions s) \<Longrightarrow> updateTransaction u s = s"
proof -
  assume "t_id u \<notin> t_id ` set (getTransactions s)"
  then have "findIndex (\<lambda>t. t_id t = t_id u) (getTransactions s) = None"
    unfolding findIndex_None_iff by (metis imageI)
  then show ?thesis by (simp add: updateTransaction_def)
qed

lemma updateTransaction_present:
  assumes "t_id u \<in> t_id ` set (getTransactions s)"
  shows "replacesFirst t_id u (getTransactions s) (getTransactions (updateTransaction u s)) \<and>
         finai_budgets (updateTransaction u s) = finai_budgets s \<and>
         finai_goals (updateTransaction u s) = finai_goals s"
proof -
  from assms have "\<exists>x \<in> set (getTransactions s). t_id x = t_id u" by auto
  from findIndex_Some_ex [OF this]
  obtain i where i: "findIndex (\<lambda>t. t_id t = t_id u) (getTransactions s) = Some i" ..
  then have "updateTransaction u s = s\<lparr>finai_transactions := Some ((getTransactions s)[i := u])\<rparr>"
    by (simp add: updateTransaction_def)
  then show ?thesis
    using replacesFirst_list_update [OF i] by (simp add: getTransactions_def)
qed

lemma updateBudget_absent:
  "b_id u \<notin> b_id ` set (getBudgets s) \<Longrightarrow> updateBudget u s = s"
proof -
  assume "b_id u \<notin> b_id ` set (getBudgets s)"
  then have "findIndex (\<lambda>b. b_id b = b_id u) (getBudgets s) = None"
    unfolding findIndex_None_iff by (metis imageI)
  then show ?thesis by (simp add: updateBudget_def)
qed

lemma updateBudget_present:
  assumes "b_id u \<in> b_id ` set (getBudgets s)"
  shows "replacesFirst b_id u (getBudgets s) (getBudgets (updateBudget u s)) \<and>
         finai_transactions (updateBudget u s) = finai_transactions s \<and>
         finai_goals (updateBudget u s) = finai_goals s"
proof -
  from assms have "\<exists>x \<in> set (getBudgets s). b_id x = b_id u" by auto
  from findIndex_Some_ex [OF this]
  obtain i where i: "findIndex (\<lambda>b. b_id b = b_id u) (getBudgets s) = Some i" ..
  then have "updateBudget u s = s\<lparr>finai_budgets := Some ((getBudgets s)[i := u])\<rparr>"
    by (simp add: updateBudget_def)
  then show ?thesis
    using replacesFirst_list_update [OF i] by (simp add: getBudgets_def)
qed

lemma updateGoal_absent:
  "g_id u \<notin> g_id ` set (getGoals s) \<Longrightarrow> updateGoal u s = s"
proof -
  assume "g_id u \<notin> g_id ` set (getGoals s)"
  then have "findIndex (\<lambda>g. g_id g = g_id u) (getGoals s) = None"
    unfolding findIndex_None_iff by (metis imageI)
  then show ?thesis by (simp add: updateGoal_def)
qed

lemma updateGoal_present:
  assumes "g_id u \<in> g_id ` set (getGoals s)"
  shows "replacesFirst g_id u (getGoals s) (getGoals (updateGoal u s)) \<and>
         finai_transactions (updateGoal u s) = finai_transactions s \<and>
         finai_budgets (updateGoal u s) = finai_budgets s"
proof -
  from assms have "\<exists>x \<in> set (getGoals s). g_id x = g_id u" by auto
  from findIndex_Some_ex [OF this]
  obtain i where i: "findIndex (\<lambda>g. g_id g = g_id u) (getGoals s) = Some i" ..
  then have "updateGoal u s = s\<lparr>finai_goals := Some ((getGoals s)[i := u])\<rparr>"
    by (simp add: updateGoal_def)
  then show ?thesis
    using replacesFirst_list_update [OF i] by (simp add: getGoals_def)
qed

text \<open>Claim C10. For each of the three update operations: when no stored entity has
  the id of the argument, the store is returned unchanged; when one has, the collection
  read back afterwards is the old one with the first entity of that id replaced by the
  argument (same length, same order, every other position untouched) and the two other
  collections are unchanged. With unique ids the first entity of that id is the only
  one (\<open>replacesFirst_unique\<close>).\<close>

theorem update_frame:
  "(t_id t \<notin> t_id ` set (getTransactions s) \<longrightarrow> updateTransaction t s = s) \<and>
   (t_id t \<in> t_id ` set (getTransactions s) \<longrightarrow>
      replacesFirst t_id t (getTransactions s) (getTransactions (updateTransaction t s)) \<and>
      finai_budgets (updateTransaction t s) = finai_budgets s \<and>
      finai_goals (updateTransaction t s) = finai_goals s) \<and>
   (b_id b \<notin> b_id ` set (getBudgets s) \<longrightarrow> updateBudget b s = s) \<and>
   (b_id b \<in> b_id ` set (getBudgets s) \<longrightarrow>
      replacesFirst b_id b (getBudgets s) (getBudgets (updateBudget b s)) \<and>
      finai_transactions (updateBudget b s) = finai_transactions s \<and>
      finai_goals (updateBudget b s) = finai_goals s) \<and>
   (g_id g \<notin> g_id ` set (getGoals s) \<longrightarrow> updateGoal g s = s) \<and>
   (g_id g \<in> g_id ` set (getGoals s) \<longrightarrow>
      replacesFirst g_id g (getGoals s) (getGoals (updateGoal g s)) \<and>
      finai_transactions (updateGoal g s) = finai_transactions s \<and>
      finai_budgets (updateGoal g s) = finai_budgets s)"
  using updateTransaction_absent [of t s] updateTransaction_present [of t s]
    updateBudget_absent [of b s] updateBudget_present [of b s]
    updateGoal_absent [of g s] updateGoal_present [of g s]
  by blast

subsection \<open>A concrete store\<close>

definition mkTx :: "string \<Rightarrow> string \<Rightarrow> TransactionType \<Rightarrow> rat \<Rightarrow> string \<Rightarrow> Transaction" where
  "mkTx i d ty a c =
     \<lparr>t_id = i, t_date = d, t_type = ty, t_amount = a, t_category = c,
      t_description = Some ''x'', t_merchant = None, t_paymentMethod = None\<rparr>"

definition mkBudget :: "string \<Rightarrow> string \<Rightarrow> rat \<Rightarrow> Budget" where
  "mkBudget i c l = \<lparr>b_id = i, b_category = c, b_limit = l, b_period = MONTHLY, b_spent = None\<rparr>"

definition mkGoal :: "string \<Rightarrow> string \<Rightarrow> rat \<Rightarrow> rat \<Rightarrow> Goal" where
  "mkGoal i n t c =
     \<lparr>g_id = i, g_name = n, g_targetAmount = t, g_currentAmount = c, g_deadline = None\<rparr>"

definition exStore :: Storage where
  "exStore =
     \<lparr>finai_transactions = Some
        [mkTx ''a'' ''2024-03-01T00:00:00.000Z'' INCOME 5000 ''Salary'',
         mkTx ''b'' ''2024-03-02T00:00:00.000Z'' EXPENSE 100 ''Food''],
      finai_budgets = Some [mkBudget ''p'' ''Food'' 100, mkBudget ''q'' ''Transport'' 400],
      finai_goals = Some [mkGoal ''g'' ''Trip'' 5000 1500]\<rparr>"

theorem update_frame_witness:
  "t_id (mkTx ''b'' ''2024-03-02T00:00:00.000Z'' EXPENSE 70 ''Food'')
      \<in> t_id ` set (getTransactions exStore) \<and>
   replacesFirst t_id (mkTx ''b'' ''2024-03-02T00:00:00.000Z'' EXPENSE 70 ''Food'')
      (getTransactions exStore)
      (getTransactions
         (updateTransaction (mkTx ''b'' ''2024-03-02T00:00:00.000Z'' EXPENSE 70 ''Food'') exStore)) \<and>
   b_id (mkBudget ''q'' ''Transport'' 450) \<in> b_id ` set (getBudgets exStore) \<and>
   replacesFirst b_id (mkBudget ''q'' ''Transport'' 450) (getBudgets exStore)
      (getBudgets (updateBudget (mkBudget ''q'' ''Transport'' 450) exStore)) \<and>
   g_id (mkGoal ''g'' ''Trip'' 5000 2000) \<in> g_id ` set (getGoals exStore) \<and>
   replacesFirst g_id (mkGoal ''g'' ''Trip'' 5000 2000) (getGoals exStore)
      (getGoals (updateGoal (mkGoal ''g'' ''Trip'' 5000 2000) exStore)) \<and>
   t_id (mkTx ''z'' ''2024-03-02T00:00:00.000Z'' EXPENSE 70 ''Food'')
      \<notin> t_id ` set (getTransactions exStore) \<and>
   updateTransaction (mkTx ''z'' ''2024-03-02T00:00:00.000Z'' EXPENSE 70 ''Food'') exStore = exStore \<and>
   b_id (mkBudget ''z'' ''Transport'' 450) \<notin> b_id ` set (getBudgets exStore) \<and>
   updateBudget (mkBudget ''z'' ''Transport'' 450) exStore = exStore \<and>
   g_id (mkGoal ''z'' ''Trip'' 5000 2000) \<notin> g_id ` set (getGoals exStore) \<and>
   updateGoal (mkGoal ''z'' ''Trip'' 5000 2000) exStore = exStore"
proof -
  have present:
    "t_id (mkTx ''b'' ''2024-03-02T00:00:00.000Z'' EXPENSE 70 ''Food'')
       \<in> t_id ` set (getTransactions exStore)"
    "b_id (mkBudget ''q'' ''Transport'' 450) \<in> b_id ` set (getBudgets exStore)"
    "g_id (mkGoal ''g'' ''Trip'' 5000 2000) \<in> g_id ` set (getGoals exStore)"
    by (simp_all add: exStore_def mkTx_def mkBudget_def mkGoal_def
        getTransactions_def getBudgets_def getGoals_def)
  have absent:
    "t_id (mkTx ''z'' ''2024-03-02T00:00:00.000Z'' EXPENSE 70 ''Food'')
       \<notin> t_id ` set (getTransactions exStore)"
    "b_id (mkBudget ''z'' ''Transport'' 450) \<notin> b_id ` set (getBudgets exStore)"
    "g_id (mkGoal ''z'' ''Trip'' 5000 2000) \<notin> g_id ` set (getGoals exStore)"
    by (simp_all add: exStore_def mkTx_def mkBudget_def mkGoal_def
        getTransactions_def getBudgets_def getGoals_def)
  show ?thesis
    using present absent
      update_frame [of "mkTx ''b'' ''2024-03-02T00:00:00.000Z'' EXPENSE 70 ''Food''" exStore
        "mkBudget ''q'' ''Transport'' 450" "mkGoal ''g'' ''Trip'' 5000 2000"]
      update_frame [of "mkTx ''z'' ''2024-03-02T00:00:00.000Z'' EXPENSE 70 ''Food''" exStore
        "mkBudget ''z'' ''Transport'' 450" "mkGoal ''z'' ''Trip'' 5000 2000"]
    by blast
qed

section \<open>The aggregation engine (DataService.calculateSummary)\<close>

text \<open>
  The functions of the JavaScript runtime that the code calls on strings are parameters
  of the model:
  \<^item> \<open>toLowerCase s\<close> is \<^verbatim>\<open>s.toLowerCase()\<close>;
  \<^item> \<open>toLocaleMonth s\<close> is \<^verbatim>\<open>new Date(s).toLocaleString('pt-BR', { month: 'short' })\<close>,
    which never throws;
  \<^item> \<open>toISOString s\<close> is \<^verbatim>\<open>new Date(s).toISOString()\<close>, \<open>None\<close> when the date is
    invalid and the call throws a RangeError.
\<close>

record Platform =
  toLowerCase :: "string \<Rightarrow> string"
  toLocaleMonth :: "string \<Rightarrow> string"
  toISOString :: "string \<Rightarrow> string option"

datatype error = RangeError

text \<open>
  A plain object used as a dictionary (\<^verbatim>\<open>Record<string, V>\<close>) is an association list
  with distinct keys in insertion order. Two things of JavaScript objects are not
  modelled: \<^verbatim>\<open>Object.keys\<close> lists keys that are array indices before the others, and
  a key that names a member of \<^verbatim>\<open>Object.prototype\<close> reads as that member before it
  is first written.
\<close>

type_synonym 'v jsobject = "(string \<times> 'v) list"

fun setProp :: "string \<Rightarrow> 'v \<Rightarrow> 'v jsobject \<Rightarrow> 'v jsobject" where
  "setProp k v [] = [(k, v)]"
| "setProp k v (p # ps) = (if fst p = k then (k, v) # ps else p # setProp k v ps)"

definition objectKeys :: "'v jsobject \<Rightarrow> string list" where
  "objectKeys obj = map fst obj"

text \<open>\<open>getProp obj k\<close> reads \<^verbatim>\<open>obj[k]\<close> for a key that \<open>obj\<close> has; the code reads this way
  only the keys that \<^verbatim>\<open>Object.keys\<close> returned.\<close>

definition getProp :: "'v jsobject \<Rightarrow> string \<Rightarrow> 'v" where
  "getProp obj k = the (map_of obj k)"

text \<open>\<^verbatim>\<open>x || 0\<close> for a number or undefined.\<close>

definition orZero :: "rat option \<Rightarrow> rat" where
  "orZero x = (case x of None \<Rightarrow> 0 | Some v \<Rightarrow> v)"

text \<open>\<^verbatim>\<open>s.split(c)\<close> for a one-character separator.\<close>

fun split :: "char \<Rightarrow> string \<Rightarrow> string list" where
  "split c [] = [[]]"
| "split c (x # xs) =
     (if x = c then [] # split c xs
      else (case split c xs of [] \<Rightarrow> [[x]] | p # ps \<Rightarrow> (x # p) # ps))"

text \<open>An array element inside a template literal: a missing element prints as
  \<^verbatim>\<open>undefined\<close>.\<close>

definition element :: "string list \<Rightarrow> nat \<Rightarrow> string" where
  "element parts i = (if i < length parts then parts ! i else ''undefined'')"

text \<open>\<^verbatim>\<open>date.toISOString().split('T')[0]\<close>\<close>

definition dayKeyOf :: "Platform \<Rightarrow> Transaction \<Rightarrow> string option" where
  "dayKeyOf P t =
     (case toISOString P (t_date t) of
        None \<Rightarrow> None
      | Some isoText \<Rightarrow> Some (takeWhile (\<lambda>c. c \<noteq> CHR ''T'') isoText))"

text \<open>The display label of a day key: \<^verbatim>\<open>const [year, month, day] = key.split('-')\<close> and
  then \<^verbatim>\<open>`${day}/${month}`\<close>.\<close>

definition dayLabel :: "string \<Rightarrow> string" where
  "dayLabel key = (let parts = split CHR ''-'' key in element parts 2 @ ''/'' @ element parts 1)"

text \<open>The local variables of \<^verbatim>\<open>calculateSummary\<close> that the loop updates. A value of
  \<open>monthlyData\<close> is the pair (income, expense).\<close>

record Totals =
  sumIncome :: rat
  sumExpense :: rat
  categoryMap :: "rat jsobject"
  monthlyData :: "(rat \<times> rat) jsobject"
  dailyData :: "rat jsobject"

definition initTotals :: Totals where
  "initTotals = \<lparr>sumIncome = 0, sumExpense = 0, categoryMap = [], monthlyData = [], dailyData = []\<rparr>"

text \<open>The body of \<^verbatim>\<open>transactions.forEach\<close>. Every type other than INCOME takes the
  expense branch. An exception leaves the function, so the updates made before it are
  not returned.\<close>

definition tally :: "Platform \<Rightarrow> Transaction \<Rightarrow> Totals \<Rightarrow> error + Totals" where
  "tally P t a =
     (let monthKey = toLocaleMonth P (t_date t);
          md = (if map_of (monthlyData a) monthKey = None
                then setProp monthKey (0, 0) (monthlyData a) else monthlyData a);
          oldIncome = fst (getProp md monthKey);
          oldExpense = snd (getProp md monthKey)
      in if t_type t = INCOME
         then Inr (a\<lparr>sumIncome := sumIncome a + t_amount t,
                     monthlyData := setProp monthKey (oldIncome + t_amount t, oldExpense) md\<rparr>)
         else (case dayKeyOf P t of
                 None \<Rightarrow> Inl RangeError
               | Some dayKey \<Rightarrow>
                   Inr (a\<lparr>sumExpense := sumExpense a + t_amount t,
                          monthlyData := setProp monthKey (oldIncome, oldExpense + t_amount t) md,
                          categoryMap :=
                            setProp (t_category t)
                              (orZero (map_of (categoryMap a) (t_category t)) + t_amount t)
                              (categoryMap a),
                          dailyData :=
                            setProp dayKey (orZero (map_of (dailyData a) dayKey) + t_amount t)
                              (dailyData a)\<rparr>)))"

fun forEach :: "('a \<Rightarrow> 's \<Rightarrow> 'e + 's) \<Rightarrow> 'a list \<Rightarrow> 's \<Rightarrow> 'e + 's" where
  "forEach f [] s = Inr s"
| "forEach f (x # xs) s = (case f x s of Inl e \<Rightarrow> Inl e | Inr s' \<Rightarrow> forEach f xs s')"

text \<open>\<^verbatim>\<open>Object.keys(dailyData).sort()\<close> sorts the keys as strings, by code unit.\<close>

definition calculateSummary :: "Platform \<Rightarrow> Storage \<Rightarrow> error + FinancialSummary" where
  "calculateSummary P s =
     (case forEach (tally P) (getTransactions s) initTotals of
        Inl e \<Rightarrow> Inl e
      | Inr a \<Rightarrow>
          Inr \<lparr>totalIncome = sumIncome a,
               totalExpense = sumExpense a,
               balance = sumIncome a - sumExpense a,
               expensesByCategory =
                 map (\<lambda>key. \<lparr>name = key, value = getProp (categoryMap a) key\<rparr>)
                   (objectKeys (categoryMap a)),
               monthlyCashflow =
                 map (\<lambda>key. \<lparr>cf_name = key, income = fst (getProp (monthlyData a) key),
                                expense = snd (getProp (monthlyData a) key)\<rparr>)
                   (objectKeys (monthlyData a)),
               dailyExpenses =
                 map (\<lambda>key. \<lparr>date = dayLabel key, amount = getProp (dailyData a) key,
                                originalDate = key\<rparr>)
                   (sort (objectKeys (dailyData a)))\<rparr>)"

subsection \<open>A concrete platform\<close>

text \<open>A stand-in for a browser in the UTC zone, used for the concrete examples only. It
  reads two shapes of strings: the one that \<^verbatim>\<open>toISOString\<close> itself produces
  (\<^verbatim>\<open>YYYY-MM-DDTHH:mm:ss.sssZ\<close>), which prints back unchanged, and the date alone
  (\<^verbatim>\<open>YYYY-MM-DD\<close>), which is midnight UTC of that day. Every other string is taken as
  an invalid date; the ranges of the numbers are not checked.\<close>

definition isDigit :: "char \<Rightarrow> bool" where
  "isDigit c \<longleftrightarrow> CHR ''0'' \<le> c \<and> c \<le> CHR ''9''"

fun matchesShape :: "string \<Rightarrow> string \<Rightarrow> bool" where
  "matchesShape [] [] = True"
| "matchesShape (p # ps) (c # cs) =
     ((if p = CHR ''d'' then isDigit c else c = p) \<and> matchesShape ps cs)"
| "matchesShape _ _ = False"

definition isIsoString :: "string \<Rightarrow> bool" where
  "isIsoString s = matchesShape ''dddd-dd-ddTdd:dd:dd.dddZ'' s"

definition isIsoDate :: "string \<Rightarrow> bool" where
  "isIsoDate s = matchesShape ''dddd-dd-dd'' s"

definition monthNames :: "(string \<times> string) list" where
  "monthNames =
     [(''01'', ''jan.''), (''02'', ''fev.''), (''03'', ''mar.''), (''04'', ''abr.''),
      (''05'', ''mai.''), (''06'', ''jun.''), (''07'', ''jul.''), (''08'', ''ago.''),
      (''09'', ''set.''), (''10'', ''out.''), (''11'', ''nov.''), (''12'', ''dez.'')]"

definition asciiLower :: "char \<Rightarrow> char" where
  "asciiLower c =
     (if CHR ''A'' \<le> c \<and> c \<le> CHR ''Z'' then char_of (of_char c + (32 :: nat)) else c)"

definition utcPlatform :: Platform where
  "utcPlatform =
     \<lparr>toLowerCase = map asciiLower,
      toLocaleMonth = (\<lambda>s. if isIsoString s \<or> isIsoDate s
                            then (case map_of monthNames (take 2 (drop 5 s)) of
                                    Some m \<Rightarrow> m | None \<Rightarrow> ''Invalid Date'')
                            else ''Invalid Date''),
      toISOString = (\<lambda>s. if isIsoString s then Some s
                          else if isIsoDate s then Some (s @ ''T00:00:00.000Z'') else None)\<rparr>"

text \<open>The same browser in a zone \<open>offset\<close> minutes ahead of UTC (behind, when negative;
  at most a day). \<open>localDay offset s\<close> is the local calendar date of the instant that \<open>s\<close>
  denotes, as \<^verbatim>\<open>getFullYear\<close>, \<^verbatim>\<open>getMonth\<close> and \<^verbatim>\<open>getDate\<close> give it, printed as
  \<^verbatim>\<open>YYYY-MM-DD\<close>. \<^verbatim>\<open>toISOString\<close> prints in UTC whatever the zone; the month label is
  that of the local date.\<close>

definition natOf :: "string \<Rightarrow> nat" where
  "natOf s = foldl (\<lambda>n c. 10 * n + (of_char c - 48)) 0 s"

definition isLeap :: "nat \<Rightarrow> bool" where
  "isLeap y \<longleftrightarrow> (y mod 4 = 0 \<and> y mod 100 \<noteq> 0) \<or> y mod 400 = 0"

definition daysIn :: "nat \<Rightarrow> nat \<Rightarrow> nat" where
  "daysIn y m =
     (if m = 2 then (if isLeap y then 29 else 28)
      else if m = 4 \<or> m = 6 \<or> m = 9 \<or> m = 11 then 30 else 31)"

definition nextDay :: "nat \<times> nat \<times> nat \<Rightarrow> nat \<times> nat \<times> nat" where
  "nextDay ymd =
     (case ymd of (y, m, d) \<Rightarrow>
        if d < daysIn y m then (y, m, d + 1) else if m < 12 then (y, m + 1, 1) else (y + 1, 1, 1))"

definition prevDay :: "nat \<times> nat \<times> nat \<Rightarrow> nat \<times> nat \<times> nat" where
  "prevDay ymd =
     (case ymd of (y, m, d) \<Rightarrow>
        if 1 < d then (y, m, d - 1) else if 1 < m then (y, m - 1, daysIn y (m - 1))
        else (y - 1, 12, 31))"

definition digit :: "nat \<Rightarrow> char" where
  "digit n = char_of (48 + n mod 10)"

definition pad2 :: "nat \<Rightarrow> string" where
  "pad2 n = [digit (n div 10), digit n]"

definition pad4 :: "nat \<Rightarrow> string" where
  "pad4 n = [digit (n div 1000), digit (n div 100), digit (n div 10), digit n]"

definition localDay :: "int \<Rightarrow> string \<Rightarrow> string" where
  "localDay offset s =
     (let ymd = (natOf (take 4 s), natOf (take 2 (drop 5 s)), natOf (take 2 (drop 8 s)));
          minutes = (if isIsoString s
                     then int (natOf (take 2 (drop 11 s))) * 60 + int (natOf (take 2 (drop 14 s)))
                     else 0) + offset
      in case (if minutes < 0 then prevDay ymd else if 1440 \<le> minutes then nextDay ymd else ymd)
         of (y, m, d) \<Rightarrow> pad4 y @ ''-'' @ pad2 m @ ''-'' @ pad2 d)"

definition zonePlatform :: "int \<Rightarrow> Platform" where
  "zonePlatform offset =
     utcPlatform\<lparr>toLocaleMonth :=
       (\<lambda>s. if isIsoString s \<or> isIsoDate s
            then (case map_of monthNames (take 2 (drop 5 (localDay offset s))) of
                    Some m \<Rightarrow> m | None \<Rightarrow> ''Invalid Date'')
            else ''Invalid Date'')\<rparr>"

subsection \<open>Properties of objects used as dictionaries\<close>

lemma map_of_setProp: "map_of (setProp k v m) = (map_of m)(k \<mapsto> v)"
  by (induction m) (auto simp: fun_eq_iff)

lemma keys_setProp:
  "map fst (setProp k v m) = (if k \<in> fst ` set m then map fst m else map fst m @ [k])"
  by (induction m) auto

lemma set_keys_setProp: "fst ` set (setProp k v m) = insert k (fst ` set m)"
  by (induction m) auto

lemma distinct_setProp: "distinct (map fst m) \<Longrightarrow> distinct (map fst (setProp k v m))"
  by (simp add: keys_setProp)



lemma not_INCOME: "t_type t \<noteq> INCOME \<longleftrightarrow> t_type t = EXPENSE"
  by (cases "t_type t") simp_all

lemma tally_income:
  assumes "t_type t = INCOME"
  shows "\<exists>a'. tally P t a = Inr a' \<and> sumIncome a' = sumIncome a + t_amount t \<and>
           sumExpense a' = sumExpense a \<and> categoryMap a' = categoryMap a \<and>
           dailyData a' = dailyData a"
  using assms by (simp add: tally_def Let_def)

lemma tally_expense:
  assumes "t_type t = EXPENSE" and "dayKeyOf P t = Some k"
  shows "\<exists>a'. tally P t a = Inr a' \<and> sumIncome a' = sumIncome a \<and>
           sumExpense a' = sumExpense a + t_amount t \<and>
           categoryMap a' = setProp (t_category t)
              (orZero (map_of (categoryMap a) (t_category t)) + t_amount t) (categoryMap a) \<and>
           dailyData a' = setProp k (orZero (map_of (dailyData a) k) + t_amount t) (dailyData a)"
  using assms by (simp add: tally_def Let_def)

lemma tally_throws:
  assumes "t_type t = EXPENSE" and "dayKeyOf P t = None"
  shows "tally P t a = Inl RangeError"
  using assms by (simp add: tally_def Let_def)






text \<open>The EXPENSE transactions of one day key.\<close>

definition expensesOn :: "Platform \<Rightarrow> string \<Rightarrow> Transaction list \<Rightarrow> Transaction list" where
  "expensesOn P day ts = filter (\<lambda>t. t_type t = EXPENSE \<and> dayKeyOf P t = Some day) ts"

lemma orZero_setProp:
  "orZero (map_of (setProp k v m) k') = (if k' = k then v else orZero (map_of m k'))"
  by (simp add: map_of_setProp orZero_def)

lemma forEach_daily:
  "forEach (tally P) ts a = Inr a' \<Longrightarrow> distinct (map fst (dailyData a)) \<Longrightarrow>
   distinct (map fst (dailyData a')) \<and>
   fst ` set (dailyData a') = fst ` set (dailyData a) \<union> {day. expensesOn P day ts \<noteq> []} \<and>
   (\<forall>day. orZero (map_of (dailyData a') day) =
      orZero (map_of (dailyData a) day) + sum_list (map t_amount (expensesOn P day ts)))"
proof (induction ts arbitrary: a)
  case Nil
  then show ?case by (simp add: expensesOn_def)
next
  case (Cons t ts)
  from Cons.prems obtain a1 where a1: "tally P t a = Inr a1" "forEach (tally P) ts a1 = Inr a'"
    by (auto split: sum.splits)
  show ?case
  proof (cases "t_type t")
    case INCOME
    from tally_income [OF INCOME, of P a] a1(1) have same: "dailyData a1 = dailyData a" by auto
    have none: "expensesOn P day (t # ts) = expensesOn P day ts" for day
      using INCOME by (simp add: expensesOn_def)
    from Cons.IH [OF a1(2)] Cons.prems(2) show ?thesis by (simp add: same none)
  next
    case EXPENSE
    with a1(1) tally_throws [OF EXPENSE, of P a] obtain k where k: "dayKeyOf P t = Some k"
      by (cases "dayKeyOf P t") auto
    from tally_expense [OF EXPENSE k, of a] a1(1)
    have upd: "dailyData a1 = setProp k (orZero (map_of (dailyData a) k) + t_amount t) (dailyData a)"
      by auto
    have d1: "distinct (map fst (dailyData a1))"
      using Cons.prems(2) by (simp add: upd distinct_setProp)
    have cons: "expensesOn P day (t # ts) = (if day = k then t # expensesOn P day ts
        else expensesOn P day ts)" for day
      using EXPENSE k by (auto simp: expensesOn_def)
    from Cons.IH [OF a1(2) d1]
    have ih: "distinct (map fst (dailyData a'))"
      "fst ` set (dailyData a') = fst ` set (dailyData a1) \<union> {day. expensesOn P day ts \<noteq> []}"
      "\<And>day. orZero (map_of (dailyData a') day) =
         orZero (map_of (dailyData a1) day) + sum_list (map t_amount (expensesOn P day ts))"
      by simp_all
    have keys: "fst ` set (dailyData a') =
        fst ` set (dailyData a) \<union> {day. expensesOn P day (t # ts) \<noteq> []}"
      unfolding ih(2) upd set_keys_setProp cons by auto
    have sums: "orZero (map_of (dailyData a') day) =
        orZero (map_of (dailyData a) day) + sum_list (map t_amount (expensesOn P day (t # ts)))"
      for day
      unfolding ih(3) upd orZero_setProp cons by simp
    from ih(1) keys sums show ?thesis by blast
  qed
qed

lemma getProp_orZero:
  fixes m :: "rat jsobject"
  shows "k \<in> fst ` set m \<Longrightarrow> getProp m k = orZero (map_of m k)"
  by (cases "map_of m k") (auto simp: getProp_def orZero_def map_of_eq_None_iff)

lemma sum_list_pos:
  fixes xs :: "rat list"
  shows "xs \<noteq> [] \<Longrightarrow> \<forall>x \<in> set xs. 0 < x \<Longrightarrow> 0 < sum_list xs"
  by (induction xs) (auto intro: add_pos_nonneg sum_list_nonneg less_imp_le)

lemma calculateSummary_InrE:
  assumes "calculateSummary P s = Inr r"
  obtains a where "forEach (tally P) (getTransactions s) initTotals = Inr a"
    and "totalIncome r = sumIncome a" and "totalExpense r = sumExpense a"
    and "balance r = sumIncome a - sumExpense a"
    and "expensesByCategory r =
           map (\<lambda>key. \<lparr>name = key, value = getProp (categoryMap a) key\<rparr>) (objectKeys (categoryMap a))"
    and "dailyExpenses r =
           map (\<lambda>key. \<lparr>date = dayLabel key, amount = getProp (dailyData a) key, originalDate = key\<rparr>)
             (sort (objectKeys (dailyData a)))"
  using assms unfolding calculateSummary_def by (auto split: sum.splits)



text \<open>Claim C3, as amended. The day of an expense is the date text before \<^verbatim>\<open>T\<close> of the
  ISO rendering of its timestamp, which is its calendar day in UTC, not in the local
  zone. In every summary produced, \<open>dailyExpenses\<close> has one entry per day that is the day
  of at least one EXPENSE transaction and no entry for any other day; the entries are
  strictly ascending by the raw key \<open>originalDate\<close>; each entry carries the key, the
  label \<open>date\<close> derived from it (\<open>dayLabel_of_key\<close>), and as \<open>amount\<close> the sum of the
  amounts of the expenses of that day; when all amounts are positive, as the data model
  requires, no entry has amount zero.\<close>

theorem dailyExpenses_grouped_sorted:
  assumes "calculateSummary P s = Inr r"
  shows "sorted_wrt (<) (map originalDate (dailyExpenses r)) \<and>
     set (map originalDate (dailyExpenses r)) = {day. expensesOn P day (getTransactions s) \<noteq> []} \<and>
     (\<forall>e \<in> set (dailyExpenses r).
        amount e = sum_list (map t_amount (expensesOn P (originalDate e) (getTransactions s))) \<and>
        date e = dayLabel (originalDate e)) \<and>
     ((\<forall>t \<in> set (getTransactions s). 0 < t_amount t) \<longrightarrow>
        (\<forall>e \<in> set (dailyExpenses r). 0 < amount e))"
proof -
  from assms obtain a where a: "forEach (tally P) (getTransactions s) initTotals = Inr a"
    and de: "dailyExpenses r =
           map (\<lambda>key. \<lparr>date = dayLabel key, amount = getProp (dailyData a) key, originalDate = key\<rparr>)
             (sort (objectKeys (dailyData a)))"
    by (rule calculateSummary_InrE)
  have d0: "distinct (map fst (dailyData initTotals))" by (simp add: initTotals_def)
  from forEach_daily [OF a d0]
  have d: "distinct (map fst (dailyData a))"
    and ks: "fst ` set (dailyData a) = {day. expensesOn P day (getTransactions s) \<noteq> []}"
    and sm: "\<And>day. orZero (map_of (dailyData a) day) =
        sum_list (map t_amount (expensesOn P day (getTransactions s)))"
    by (simp_all add: initTotals_def orZero_def)
  have keys: "map originalDate (dailyExpenses r) = sort (map fst (dailyData a))"
    by (simp add: de objectKeys_def comp_def)
  have 1: "sorted_wrt (<) (map originalDate (dailyExpenses r))"
    unfolding keys strict_sorted_iff using d by simp
  have 2: "set (map originalDate (dailyExpenses r)) =
      {day. expensesOn P day (getTransactions s) \<noteq> []}"
    unfolding keys using ks by simp
  have 3: "amount e = sum_list (map t_amount (expensesOn P (originalDate e) (getTransactions s))) \<and>
        date e = dayLabel (originalDate e)" if "e \<in> set (dailyExpenses r)" for e
  proof -
    from that obtain key where key: "key \<in> fst ` set (dailyData a)"
      and e: "e = \<lparr>date = dayLabel key, amount = getProp (dailyData a) key, originalDate = key\<rparr>"
      unfolding de objectKeys_def by auto
    show ?thesis by (simp add: e getProp_orZero [OF key] sm)
  qed
  have 4: "0 < amount e" if pos: "\<forall>t \<in> set (getTransactions s). 0 < t_amount t"
    and e: "e \<in> set (dailyExpenses r)" for e
  proof -
    from e have "originalDate e \<in> set (map originalDate (dailyExpenses r))" by simp
    then have ne: "expensesOn P (originalDate e) (getTransactions s) \<noteq> []"
      unfolding 2 by simp
    have "\<forall>x \<in> set (map t_amount (expensesOn P (originalDate e) (getTransactions s))). 0 < x"
      using pos by (auto simp: expensesOn_def)
    with ne have "0 < sum_list (map t_amount (expensesOn P (originalDate e) (getTransactions s)))"
      by (intro sum_list_pos) simp_all
    with 3 [OF e] show ?thesis by simp
  qed
  from 1 2 3 4 show ?thesis by blast
qed

subsection \<open>The first scenario of the specification\<close>

definition scenarioStore :: Storage where
  "scenarioStore =
     \<lparr>finai_transactions = Some
        [mkTx ''1'' ''2024-03-01T09:00:00.000Z'' INCOME 5000 ''Salary'',
         mkTx ''2'' ''2024-03-03T08:30:00.000Z'' EXPENSE 30 ''Transport'',
         mkTx ''3'' ''2024-03-02T12:00:00.000Z'' EXPENSE 100 ''Food'',
         mkTx ''4'' ''2024-03-02T20:15:00.000Z'' EXPENSE 50 ''Food''],
      finai_budgets = Some [mkBudget ''p'' ''Food'' 100],
      finai_goals = Some []\<rparr>"

definition scenarioSummary :: FinancialSummary where
  "scenarioSummary =
     \<lparr>totalIncome = 5000, totalExpense = 180, balance = 4820,
      expensesByCategory = [\<lparr>name = ''Transport'', value = 30\<rparr>, \<lparr>name = ''Food'', value = 150\<rparr>],
      monthlyCashflow = [\<lparr>cf_name = ''mar.'', income = 5000, expense = 180\<rparr>],
      dailyExpenses =
        [\<lparr>date = ''02/03'', amount = 150, originalDate = ''2024-03-02''\<rparr>,
         \<lparr>date = ''03/03'', amount = 30, originalDate = ''2024-03-03''\<rparr>]\<rparr>"

lemma scenario_summary: "calculateSummary utcPlatform scenarioStore = Inr scenarioSummary"
  by code_simp


theorem dailyExpenses_grouped_sorted_witness:
  "calculateSummary utcPlatform scenarioStore = Inr scenarioSummary \<and>
   list_all (\<lambda>t. 0 < t_amount t) (getTransactions scenarioStore) \<and>
   map originalDate (dailyExpenses scenarioSummary) = [''2024-03-02'', ''2024-03-03''] \<and>
   sorted_wrt (<) (map originalDate (dailyExpenses scenarioSummary)) \<and>
   set (map originalDate (dailyExpenses scenarioSummary)) =
     {day. expensesOn utcPlatform day (getTransactions scenarioStore) \<noteq> []} \<and>
   list_all (\<lambda>e. amount e =
       sum_list (map t_amount (expensesOn utcPlatform (originalDate e) (getTransactions scenarioStore))) \<and>
       date e = dayLabel (originalDate e) \<and> 0 < amount e)
     (dailyExpenses scenarioSummary)"
proof -
  have pos: "list_all (\<lambda>t. 0 < t_amount t) (getTransactions scenarioStore)"
    by (simp add: scenarioStore_def getTransactions_def mkTx_def)
  have keys: "map originalDate (dailyExpenses scenarioSummary) = [''2024-03-02'', ''2024-03-03'']"
    by (simp add: scenarioSummary_def)
  from dailyExpenses_grouped_sorted [OF scenario_summary] pos keys scenario_summary
  show ?thesis unfolding list_all_iff by blast
qed

subsection \<open>The display label and the empty collection\<close>

lemma split_no_sep: "c \<notin> set xs \<Longrightarrow> split c xs = [xs]"
  by (induction xs) auto

lemma split_at_sep: "c \<notin> set xs \<Longrightarrow> split c (xs @ c # ys) = xs # split c ys"
  by (induction xs) auto

lemma dayLabel_of_key:
  assumes "CHR ''-'' \<notin> set y" and "CHR ''-'' \<notin> set m" and "CHR ''-'' \<notin> set d"
  shows "dayLabel (y @ ''-'' @ m @ ''-'' @ d) = d @ ''/'' @ m"
proof -
  have "split CHR ''-'' (y @ CHR ''-'' # (m @ CHR ''-'' # d)) = [y, m, d]"
    using assms by (simp add: split_at_sep split_no_sep)
  then show ?thesis by (simp add: dayLabel_def element_def)
qed

lemma calculateSummary_empty:
  "getTransactions s = [] \<Longrightarrow>
   calculateSummary P s =
     Inr \<lparr>totalIncome = 0, totalExpense = 0, balance = 0, expensesByCategory = [],
          monthlyCashflow = [], dailyExpenses = []\<rparr>"
  by (simp add: calculateSummary_def initTotals_def objectKeys_def)

subsection \<open>A browser three hours behind UTC\<close>

definition lateStore :: Storage where
  "lateStore =
     \<lparr>finai_transactions = Some
        [mkTx ''1'' ''2024-03-05T13:00:00.000Z'' EXPENSE 40 ''Food'',
         mkTx ''2'' ''2024-03-06T01:00:00.000Z'' EXPENSE 60 ''Food''],
      finai_budgets = Some [], finai_goals = Some []\<rparr>"

definition lateSummary :: FinancialSummary where
  "lateSummary =
     \<lparr>totalIncome = 0, totalExpense = 100, balance = - 100,
      expensesByCategory = [\<lparr>name = ''Food'', value = 100\<rparr>],
      monthlyCashflow = [\<lparr>cf_name = ''mar.'', income = 0, expense = 100\<rparr>],
      dailyExpenses =
        [\<lparr>date = ''05/03'', amount = 40, originalDate = ''2024-03-05''\<rparr>,
         \<lparr>date = ''06/03'', amount = 60, originalDate = ''2024-03-06''\<rparr>]\<rparr>"

text \<open>Counterexample to claim C3 as stated. In a browser three hours behind UTC, two
  expenses made on the same local day, at 10:00 and at 22:00 of the fifth of March, get
  two entries, under the fifth and the sixth: the day of an entry is the UTC date, not
  the local one.\<close>

theorem day_key_is_not_the_local_day:
  "map (localDay (- 180) \<circ> t_date) (getTransactions lateStore) = [''2024-03-05'', ''2024-03-05''] \<and>
   calculateSummary (zonePlatform (- 180)) lateStore = Inr lateSummary \<and>
   map originalDate (dailyExpenses lateSummary) = [''2024-03-05'', ''2024-03-06''] \<and>
   map amount (dailyExpenses lateSummary) = [40, 60]"
proof -
  have "localDay (- 180) ''2024-03-05T13:00:00.000Z'' = ''2024-03-05''"
    by code_simp
  moreover have "localDay (- 180) ''2024-03-06T01:00:00.000Z'' = ''2024-03-05''"
    by code_simp
  moreover have "toLocaleMonth (zonePlatform (- 180)) ''2024-03-05T13:00:00.000Z'' = ''mar.''"
    "toLocaleMonth (zonePlatform (- 180)) ''2024-03-06T01:00:00.000Z'' = ''mar.''"
    "toISOString (zonePlatform (- 180)) ''2024-03-05T13:00:00.000Z'' = Some ''2024-03-05T13:00:00.000Z''"
    "toISOString (zonePlatform (- 180)) ''2024-03-06T01:00:00.000Z'' = Some ''2024-03-06T01:00:00.000Z''"
    by (simp_all add: zonePlatform_def utcPlatform_def isIsoString_def isDigit_def monthNames_def
        calculation)
  then have "calculateSummary (zonePlatform (- 180)) lateStore = Inr lateSummary"
    by (simp add: calculateSummary_def lateStore_def lateSummary_def mkTx_def getTransactions_def
        tally_def dayKeyOf_def initTotals_def getProp_def orZero_def objectKeys_def dayLabel_def
        element_def Let_def)
  ultimately show ?thesis
    by (simp add: lateStore_def lateSummary_def getTransactions_def mkTx_def)
qed

section \<open>The AI collaborators (services/geminiService.ts)\<close>

text \<open>The outcome of one \<^verbatim>\<open>ai.models.generateContent\<close> call: the call throws (or its
  promise rejects), the response has no text, or it has a text.\<close>

datatype 'a response = Throws | NoText | Text 'a

text \<open>What \<^verbatim>\<open>JSON.parse(response.text)\<close> yields for the parsing call: an exception, or an
  object in which each of the five fields of the schema is present or not.\<close>

record ParsedData =
  p_type :: "TransactionType option"
  p_amount :: "rat option"
  p_category :: "string option"
  p_description :: "string option"
  p_date :: "string option"

datatype payload = Malformed | Data ParsedData

text \<open>\<^verbatim>\<open>Partial<Transaction>\<close> as \<^verbatim>\<open>parseTransaction\<close> builds it: \<^verbatim>\<open>id\<close> and \<^verbatim>\<open>date\<close> are
  always set, the other fields are those of the data.\<close>

record PartialTransaction =
  pt_id :: string
  pt_date :: string
  pt_type :: "TransactionType option"
  pt_amount :: "rat option"
  pt_category :: "string option"
  pt_description :: "string option"

text \<open>\<^verbatim>\<open>parseTransaction\<close>: every exception inside is caught and gives null (\<open>None\<close>);
  \<^verbatim>\<open>new Date(data.date).toISOString()\<close> throws for a missing or invalid date. \<open>uuid\<close> is
  the value of \<^verbatim>\<open>crypto.randomUUID()\<close>.\<close>

definition parseTransaction ::
    "Platform \<Rightarrow> payload response \<Rightarrow> string \<Rightarrow> PartialTransaction option" where
  "parseTransaction P resp uuid =
     (case resp of
        Throws \<Rightarrow> None
      | NoText \<Rightarrow> None
      | Text Malformed \<Rightarrow> None
      | Text (Data d) \<Rightarrow>
          (case p_date d of
             None \<Rightarrow> None
           | Some dt \<Rightarrow>
               (case toISOString P dt of
                  None \<Rightarrow> None
                | Some isoText \<Rightarrow>
                    Some \<lparr>pt_id = uuid, pt_date = isoText, pt_type = p_type d,
                          pt_amount = p_amount d, pt_category = p_category d,
                          pt_description = p_description d\<rparr>)))"

definition adviceFallbackNoText :: string where
  "adviceFallbackNoText =
     ''Transa'' @ [CHR 0xC3, CHR 0xA7, CHR 0xC3, CHR 0xA3] @ ''o registrada com sucesso.''"

definition adviceFallbackError :: string where
  "adviceFallbackError = ''Transa'' @ [CHR 0xC3, CHR 0xA7, CHR 0xC3, CHR 0xA3] @ ''o registrada.''"

text \<open>\<^verbatim>\<open>generateFinancialAdvice\<close>, given the outcome of its call:
  \<^verbatim>\<open>response.text || "..."\<close> replaces an absent or empty text.\<close>

definition generateFinancialAdvice :: "string response \<Rightarrow> string" where
  "generateFinancialAdvice resp =
     (case resp of
        Throws \<Rightarrow> adviceFallbackError
      | NoText \<Rightarrow> adviceFallbackNoText
      | Text answer \<Rightarrow> (if answer = [] then adviceFallbackNoText else answer))"

section \<open>The conversational orchestrator (App.tsx)\<close>

subsection \<open>Budget utilisation\<close>

text \<open>The result of a JavaScript division is a number, never an exception: a zero
  divisor gives an infinity or NaN.\<close>

datatype jsnum = Finite rat | PosInfinity | NegInfinity | NaN

definition jsDivide :: "rat \<Rightarrow> rat \<Rightarrow> jsnum" where
  "jsDivide x y =
     (if y \<noteq> 0 then Finite (x / y)
      else if 0 < x then PosInfinity else if x < 0 then NegInfinity else NaN)"

definition jsTimes :: "jsnum \<Rightarrow> rat \<Rightarrow> jsnum" where
  "jsTimes x c =
     (case x of
        Finite v \<Rightarrow> Finite (v * c)
      | PosInfinity \<Rightarrow> (if 0 < c then PosInfinity else if c < 0 then NegInfinity else NaN)
      | NegInfinity \<Rightarrow> (if 0 < c then NegInfinity else if c < 0 then PosInfinity else NaN)
      | NaN \<Rightarrow> NaN)"

text \<open>\<^verbatim>\<open>Math.round\<close>: the nearest integer, a tie going up; infinities and NaN are
  returned as they are.\<close>

definition Math_round :: "jsnum \<Rightarrow> jsnum" where
  "Math_round x = (case x of Finite v \<Rightarrow> Finite (of_int \<lfloor>v + 1 / 2\<rfloor>) | _ \<Rightarrow> x)"

text \<open>The status text handed to the advice collaborator, as the template chosen and
  the numbers interpolated into it (the printing of numbers is not modelled):
  \<^item> \<open>NoBudget\<close>: the initial text, no budget for the category;
  \<^item> \<open>OverBudget overage spent percentage\<close>: the text starting \<^verbatim>\<open>ALERTA\<close>, with
    \<^verbatim>\<open>Math.abs(remaining)\<close>, \<^verbatim>\<open>categorySpend\<close> and \<^verbatim>\<open>percentage\<close>;
  \<^item> \<open>WithinBudget spent limit percentage remaining\<close>: the text starting
    \<^verbatim>\<open>Status do Or\<close>, with \<^verbatim>\<open>categorySpend\<close>, \<^verbatim>\<open>budget.limit\<close>, \<^verbatim>\<open>percentage\<close> and
    \<^verbatim>\<open>remaining\<close>;
  \<^item> \<open>IncomeRecorded\<close>: the text for a recorded income.\<close>

datatype BudgetStatus =
    NoBudget
  | OverBudget rat rat jsnum
  | WithinBudget rat rat jsnum rat
  | IncomeRecorded



definition percentageOf :: "BudgetStatus \<Rightarrow> jsnum option" where
  "percentageOf st =
     (case st of OverBudget _ _ p \<Rightarrow> Some p | WithinBudget _ _ p _ \<Rightarrow> Some p | _ \<Rightarrow> None)"

text \<open>\<^verbatim>\<open>updatedSummary.expensesByCategory.find(c => c.name === category)?.value || 0\<close>\<close>

definition categorySpendOf :: "FinancialSummary \<Rightarrow> string \<Rightarrow> rat" where
  "categorySpendOf updatedSummary category =
     orZero (map_option value (find (\<lambda>c. name c = category) (expensesByCategory updatedSummary)))"

text \<open>Lines 140 to 155 of \<^verbatim>\<open>handleSendMessage\<close>: the budget is looked up in the
  \<^verbatim>\<open>budgets\<close> state of the component, by category compared in lower case.\<close>

definition budgetStatusOf ::
    "Platform \<Rightarrow> Budget list \<Rightarrow> Transaction \<Rightarrow> FinancialSummary \<Rightarrow> BudgetStatus" where
  "budgetStatusOf P budgets newTransaction updatedSummary =
     (let budget = find (\<lambda>b. toLowerCase P (b_category b) =
                              toLowerCase P (t_category newTransaction)) budgets
      in case budget of
           Some b \<Rightarrow>
             (if t_type newTransaction = EXPENSE
              then (let categorySpend = categorySpendOf updatedSummary (t_category newTransaction);
                        percentage = Math_round (jsTimes (jsDivide categorySpend (b_limit b)) 100);
                        remaining = b_limit b - categorySpend
                    in if remaining < 0 then OverBudget \<bar>remaining\<bar> categorySpend percentage
                       else WithinBudget categorySpend (b_limit b) percentage remaining)
              else if t_type newTransaction = INCOME then IncomeRecorded else NoBudget)
         | None \<Rightarrow> (if t_type newTransaction = INCOME then IncomeRecorded else NoBudget))"

subsection \<open>One turn\<close>

record AppState =
  storage :: Storage
  transactions :: "Transaction list"
  budgets :: "Budget list"
  goals :: "Goal list"
  summary :: FinancialSummary
  messages :: "ChatMessage list"
  isLoading :: bool
  isProcessing :: bool

text \<open>\<^verbatim>\<open>fetchData\<close>: the four reads are awaited together, so a failing
  \<^verbatim>\<open>calculateSummary\<close> leaves the four states as they were; the error is logged.\<close>

definition fetchData :: "Platform \<Rightarrow> AppState \<Rightarrow> AppState" where
  "fetchData P st =
     (case calculateSummary P (storage st) of
        Inl e \<Rightarrow> st\<lparr>isLoading := False\<rparr>
      | Inr summ \<Rightarrow>
          st\<lparr>transactions := getTransactions (storage st), budgets := getBudgets (storage st),
             goals := getGoals (storage st), summary := summ, isLoading := False\<rparr>)"

text \<open>What one turn takes from outside: the values of \<^verbatim>\<open>crypto.randomUUID()\<close> and
  \<^verbatim>\<open>Date.now()\<close>, and the outcomes of the two collaborator calls. The advice outcome
  may depend on the transaction and the status it is asked about.\<close>

record Turn =
  uuidUser :: string
  uuidTransaction :: string
  uuidReply :: string
  nowUser :: int
  nowReply :: int
  parseOutcome :: "payload response"
  adviceOutcome :: "Transaction \<Rightarrow> BudgetStatus \<Rightarrow> string response"

definition clarificationText :: string where
  "clarificationText =
     ''N'' @ [CHR 0xC3, CHR 0xA3] @ ''o consegui identificar uma transa'' @
     [CHR 0xC3, CHR 0xA7, CHR 0xC3, CHR 0xA3] @
     ''o na sua mensagem. Por favor, especifique o valor, categoria e a descri'' @
     [CHR 0xC3, CHR 0xA7, CHR 0xC3, CHR 0xA3] @ ''o. Exemplo: '' @ [CHR 0x27] @
     ''Gastei R$25 em Uber'' @ [CHR 0x27] @ ''.''"

definition apologyText :: string where
  "apologyText = ''Desculpe, encontrei um erro ao processar seu pedido. Tente novamente.''"

text \<open>The guard of line 126: the parse result is not null and its \<^verbatim>\<open>amount\<close>,
  \<^verbatim>\<open>category\<close> and \<^verbatim>\<open>type\<close> are truthy (a number other than 0, a string other than
  the empty one, a present type). On success the object is cast to a transaction.\<close>

definition validTransaction :: "PartialTransaction option \<Rightarrow> Transaction option" where
  "validTransaction parsed =
     (case parsed of
        None \<Rightarrow> None
      | Some p \<Rightarrow>
          (case (pt_amount p, pt_category p, pt_type p) of
             (Some a, Some c, Some ty) \<Rightarrow>
               (if a \<noteq> 0 \<and> c \<noteq> []
                then Some \<lparr>t_id = pt_id p, t_date = pt_date p, t_type = ty, t_amount = a,
                           t_category = c, t_description = pt_description p,
                           t_merchant = None, t_paymentMethod = None\<rparr>
                else None)
           | _ \<Rightarrow> None))"

definition assistantMessage :: "Turn \<Rightarrow> string \<Rightarrow> string option \<Rightarrow> ChatMessage" where
  "assistantMessage T content related =
     \<lparr>m_id = uuidReply T, m_role = Assistant, m_content = content, m_timestamp = nowReply T,
      m_relatedTransactionId = related\<rparr>"

definition userMessage :: "Turn \<Rightarrow> string \<Rightarrow> ChatMessage" where
  "userMessage T content =
     \<lparr>m_id = uuidUser T, m_role = User, m_content = content, m_timestamp = nowUser T,
      m_relatedTransactionId = None\<rparr>"

definition appendMessage :: "ChatMessage \<Rightarrow> AppState \<Rightarrow> AppState" where
  "appendMessage msg st = st\<lparr>messages := messages st @ [msg]\<rparr>"

text \<open>\<^verbatim>\<open>handleSendMessage\<close>. The \<^verbatim>\<open>budgets\<close> it reads are those of the state in which
  the handler was created (\<open>st\<close>), not those that \<^verbatim>\<open>fetchData\<close> sets during the turn.
  An exception of the second \<^verbatim>\<open>calculateSummary\<close> is caught by the \<^verbatim>\<open>catch\<close> of the
  turn.\<close>

definition handleSendMessage :: "Platform \<Rightarrow> Turn \<Rightarrow> string \<Rightarrow> AppState \<Rightarrow> AppState" where
  "handleSendMessage P T content st =
     (let st1 = (appendMessage (userMessage T content) st)\<lparr>isProcessing := True\<rparr>;
          parsedTransaction = parseTransaction P (parseOutcome T) (uuidTransaction T)
      in case validTransaction parsedTransaction of
           Some newTransaction \<Rightarrow>
             (let st2 = st1\<lparr>storage := addTransaction newTransaction (storage st1)\<rparr>;
                  st3 = fetchData P st2
              in case calculateSummary P (storage st3) of
                   Inl e \<Rightarrow>
                     (appendMessage (assistantMessage T apologyText None) st3)\<lparr>isProcessing := False\<rparr>
                 | Inr updatedSummary \<Rightarrow>
                     (let budgetStatus = budgetStatusOf P (budgets st) newTransaction updatedSummary;
                          advice = generateFinancialAdvice
                                     (adviceOutcome T newTransaction budgetStatus)
                      in (appendMessage (assistantMessage T advice (Some (t_id newTransaction))) st3)
                           \<lparr>isProcessing := False\<rparr>))
         | None \<Rightarrow>
             (appendMessage (assistantMessage T clarificationText None) st1)\<lparr>isProcessing := False\<rparr>)"

subsection \<open>Properties of a turn\<close>

lemma forEach_category:
  "forEach (tally P) ts a = Inr a' \<Longrightarrow>
   orZero (map_of (categoryMap a') c) =
     orZero (map_of (categoryMap a) c) +
     sum_list (map t_amount (filter (\<lambda>t. t_type t = EXPENSE \<and> t_category t = c) ts))"
proof (induction ts arbitrary: a)
  case Nil
  then show ?case by simp
next
  case (Cons t ts)
  from Cons.prems obtain a1 where a1: "tally P t a = Inr a1" "forEach (tally P) ts a1 = Inr a'"
    by (auto split: sum.splits)
  have "orZero (map_of (categoryMap a1) c) = orZero (map_of (categoryMap a) c) +
      (if t_type t = EXPENSE \<and> t_category t = c then t_amount t else 0)"
  proof (cases "t_type t")
    case INCOME
    with tally_income [OF INCOME, of P a] a1(1) show ?thesis by auto
  next
    case EXPENSE
    with a1(1) tally_throws [OF EXPENSE, of P a] obtain k where "dayKeyOf P t = Some k"
      by (cases "dayKeyOf P t") auto
    from tally_expense [OF EXPENSE this, of a] a1(1) EXPENSE show ?thesis
      by (auto simp: orZero_setProp)
  qed
  with Cons.IH [OF a1(2)] show ?case by simp
qed

lemma find_entries:
  "find (\<lambda>e. name e = c) (map (\<lambda>key. \<lparr>name = key, value = f key\<rparr>) ks) =
     (if c \<in> set ks then Some \<lparr>name = c, value = f c\<rparr> else None)"
  by (induction ks) auto

text \<open>The EXPENSE transactions of one category (compared exactly).\<close>

definition expensesIn :: "string \<Rightarrow> Transaction list \<Rightarrow> Transaction list" where
  "expensesIn c ts = filter (\<lambda>t. t_type t = EXPENSE \<and> t_category t = c) ts"

lemma categorySpendOf_sum:
  assumes "calculateSummary P s = Inr r"
  shows "categorySpendOf r c = sum_list (map t_amount (expensesIn c (getTransactions s)))"
proof -
  from assms obtain a where a: "forEach (tally P) (getTransactions s) initTotals = Inr a"
    and cat: "expensesByCategory r =
           map (\<lambda>key. \<lparr>name = key, value = getProp (categoryMap a) key\<rparr>) (objectKeys (categoryMap a))"
    by (rule calculateSummary_InrE)
  have f: "find (\<lambda>e. name e = c) (expensesByCategory r) =
      (if c \<in> set (objectKeys (categoryMap a))
       then Some \<lparr>name = c, value = getProp (categoryMap a) c\<rparr> else None)"
    unfolding cat by (rule find_entries)
  have "categorySpendOf r c = orZero (map_of (categoryMap a) c)"
  proof (cases "c \<in> fst ` set (categoryMap a)")
    case True
    then show ?thesis
      unfolding categorySpendOf_def f by (simp add: objectKeys_def getProp_orZero) (simp add: orZero_def)
  next
    case False
    then have "map_of (categoryMap a) c = None" by (simp add: map_of_eq_None_iff)
    with False show ?thesis
      unfolding categorySpendOf_def f by (simp add: objectKeys_def orZero_def)
  qed
  with forEach_category [OF a, of c] show ?thesis
    by (simp add: initTotals_def orZero_def expensesIn_def)
qed

lemma Math_round_Finite: "Math_round (Finite v) = Finite (of_int \<lfloor>v + 1 / 2\<rfloor>)"
  by (simp add: Math_round_def)

lemma percentage_finite:
  "l \<noteq> 0 \<Longrightarrow> Math_round (jsTimes (jsDivide x l) 100) = Finite (of_int \<lfloor>x / l * 100 + 1 / 2\<rfloor>)"
  by (simp add: jsDivide_def jsTimes_def Math_round_def)

lemma percentage_zero_limit:
  "0 < x \<Longrightarrow> Math_round (jsTimes (jsDivide x 0) 100) = PosInfinity"
  by (simp add: jsDivide_def jsTimes_def Math_round_def)

lemma budgetStatusOf_expense:
  assumes "find (\<lambda>b. toLowerCase P (b_category b) = toLowerCase P (t_category tx)) bs = Some b"
    and "t_type tx = EXPENSE"
  shows "budgetStatusOf P bs tx r =
    (if b_limit b - categorySpendOf r (t_category tx) < 0
     then OverBudget \<bar>b_limit b - categorySpendOf r (t_category tx)\<bar>
            (categorySpendOf r (t_category tx))
            (Math_round (jsTimes (jsDivide (categorySpendOf r (t_category tx)) (b_limit b)) 100))
     else WithinBudget (categorySpendOf r (t_category tx)) (b_limit b)
            (Math_round (jsTimes (jsDivide (categorySpendOf r (t_category tx)) (b_limit b)) 100))
            (b_limit b - categorySpendOf r (t_category tx)))"
  using assms by (simp add: budgetStatusOf_def Let_def)


lemma handleSendMessage_persisted:
  assumes "validTransaction (parseTransaction P (parseOutcome T) (uuidTransaction T)) = Some tx"
  shows "storage (handleSendMessage P T content st) = addTransaction tx (storage st)"
  using assms
  by (simp add: handleSendMessage_def Let_def appendMessage_def fetchData_def split: sum.splits)

lemma storage_fetchData: "storage (fetchData P st) = storage st"
  by (simp add: fetchData_def split: sum.splits)

lemma messages_fetchData: "messages (fetchData P st) = messages st"
  by (simp add: fetchData_def split: sum.splits)

lemma handleSendMessage_advised:
  assumes "validTransaction (parseTransaction P (parseOutcome T) (uuidTransaction T)) = Some tx"
    and "calculateSummary P (addTransaction tx (storage st)) = Inr fresh"
  shows "messages (handleSendMessage P T content st) =
           messages st @ [userMessage T content,
             assistantMessage T
               (generateFinancialAdvice (adviceOutcome T tx (budgetStatusOf P (budgets st) tx fresh)))
               (Some (t_id tx))]"
  using assms
  by (simp add: handleSendMessage_def Let_def appendMessage_def storage_fetchData messages_fetchData)




text \<open>The parse outcomes on which the turn answers with the clarification: the call or
  the JSON decoding fails, or the data lacks a type, an amount other than 0, a category
  other than the empty string, or a date that \<^verbatim>\<open>toISOString\<close> accepts. The description is
  not looked at.\<close>

definition rejectedOutcome :: "Platform \<Rightarrow> payload response \<Rightarrow> bool" where
  "rejectedOutcome P r =
     (case r of
        Throws \<Rightarrow> True
      | NoText \<Rightarrow> True
      | Text Malformed \<Rightarrow> True
      | Text (Data d) \<Rightarrow>
          p_type d = None \<or> p_amount d = None \<or> p_amount d = Some 0 \<or>
          p_category d = None \<or> p_category d = Some [] \<or>
          (case p_date d of None \<Rightarrow> True | Some x \<Rightarrow> toISOString P x = None))"

lemma validTransaction_None_iff:
  "validTransaction (parseTransaction P r u) = None \<longleftrightarrow> rejectedOutcome P r"
  by (auto simp: validTransaction_def parseTransaction_def rejectedOutcome_def
      split: response.splits payload.splits option.splits if_splits)


lemma accepted_parse_is_persisted:
  assumes "\<not> rejectedOutcome P (parseOutcome T)"
  shows "\<exists>tx. validTransaction (parseTransaction P (parseOutcome T) (uuidTransaction T)) = Some tx \<and>
           getTransactions (storage (handleSendMessage P T content st)) = getTransactions (storage st) @ [tx]"
proof -
  from assms obtain tx where
    tx: "validTransaction (parseTransaction P (parseOutcome T) (uuidTransaction T)) = Some tx"
    using validTransaction_None_iff [of P "parseOutcome T" "uuidTransaction T"] by auto
  from handleSendMessage_persisted [OF tx] have
    "getTransactions (storage (handleSendMessage P T content st)) = getTransactions (storage st) @ [tx]"
    by (simp add: addTransaction_def getTransactions_def)
  with tx show ?thesis by blast
qed



lemma expensesIn_snoc_nonempty:
  "t_type tx = EXPENSE \<Longrightarrow> expensesIn (t_category tx) (ts @ [tx]) \<noteq> []"
  by (simp add: expensesIn_def)

text \<open>Claim C5, as amended. The limit is not clamped: the code divides by the limit as
  it is stored. In a turn that stores an EXPENSE whose category has a budget with a limit
  of zero or less, all stored amounts being positive: the spend is positive, no
  exception is raised and the turn ends with the tagged advice message, the status is
  the over-budget one with overage spend minus limit, and the percentage in it is the
  quotient by the stored limit, which is \<^verbatim>\<open>Infinity\<close> for a limit of zero and a rounded
  number not above zero for a negative limit.\<close>

theorem nonpositive_limit_unclamped_over_budget:
  assumes "validTransaction (parseTransaction P (parseOutcome T) (uuidTransaction T)) = Some tx"
    and "t_type tx = EXPENSE"
    and "find (\<lambda>b. toLowerCase P (b_category b) = toLowerCase P (t_category tx)) (budgets st) = Some b"
    and "calculateSummary P (storage (handleSendMessage P T content st)) = Inr fresh"
    and "b_limit b \<le> 0"
    and "list_all (\<lambda>t. 0 < t_amount t) (getTransactions (storage (handleSendMessage P T content st)))"
  shows "(let spent = categorySpendOf fresh (t_category tx);
              status = budgetStatusOf P (budgets st) tx fresh
          in 0 < spent \<and>
             status = OverBudget (spent - b_limit b) spent
                        (Math_round (jsTimes (jsDivide spent (b_limit b)) 100)) \<and>
             (b_limit b = 0 \<longrightarrow> percentageOf status = Some PosInfinity) \<and>
             (b_limit b < 0 \<longrightarrow>
                percentageOf status = Some (Finite (of_int \<lfloor>spent / b_limit b * 100 + 1 / 2\<rfloor>)) \<and>
                \<lfloor>spent / b_limit b * 100 + 1 / 2\<rfloor> \<le> 0) \<and>
             messages (handleSendMessage P T content st) =
               messages st @ [userMessage T content,
                 assistantMessage T (generateFinancialAdvice (adviceOutcome T tx status))
                   (Some (t_id tx))])"
proof -
  have st': "storage (handleSendMessage P T content st) = addTransaction tx (storage st)"
    by (rule handleSendMessage_persisted [OF assms(1)])
  with assms(4) have fresh: "calculateSummary P (addTransaction tx (storage st)) = Inr fresh"
    by simp
  have all: "getTransactions (addTransaction tx (storage st)) = getTransactions (storage st) @ [tx]"
    by (simp add: addTransaction_def getTransactions_def)
  let ?xs = "expensesIn (t_category tx) (getTransactions (storage st) @ [tx])"
  let ?spent = "categorySpendOf fresh (t_category tx)"
  have spent: "?spent = sum_list (map t_amount ?xs)"
    using categorySpendOf_sum [OF fresh, of "t_category tx"] by (simp add: all)
  have "\<forall>x \<in> set (map t_amount ?xs). 0 < x"
    using assms(6) unfolding st' all by (auto simp: expensesIn_def list_all_iff)
  moreover have "map t_amount ?xs \<noteq> []"
    using expensesIn_snoc_nonempty [OF assms(2)] by simp
  ultimately have pos: "0 < ?spent"
    unfolding spent by (intro sum_list_pos) simp_all
  with assms(5) have neg: "b_limit b - ?spent < 0" by simp
  have status: "budgetStatusOf P (budgets st) tx fresh =
      OverBudget (?spent - b_limit b) ?spent (Math_round (jsTimes (jsDivide ?spent (b_limit b)) 100))"
    using neg by (simp add: budgetStatusOf_expense [OF assms(3) assms(2)])
  have zero: "percentageOf (budgetStatusOf P (budgets st) tx fresh) = Some PosInfinity"
    if "b_limit b = 0"
    using that pos by (simp add: status percentageOf_def percentage_zero_limit)
  have below: "percentageOf (budgetStatusOf P (budgets st) tx fresh) =
        Some (Finite (of_int \<lfloor>?spent / b_limit b * 100 + 1 / 2\<rfloor>)) \<and>
      \<lfloor>?spent / b_limit b * 100 + 1 / 2\<rfloor> \<le> 0" if l: "b_limit b < 0"
  proof -
    have "?spent / b_limit b < 0" using pos l by (simp add: divide_pos_neg)
    then have "?spent / b_limit b * 100 + 1 / 2 < 1" by simp
    then have "\<lfloor>?spent / b_limit b * 100 + 1 / 2\<rfloor> \<le> 0" by (simp add: floor_le_iff)
    moreover have "b_limit b \<noteq> 0" using l by simp
    ultimately show ?thesis by (simp add: status percentageOf_def percentage_finite)
  qed
  have msgs: "messages (handleSendMessage P T content st) =
           messages st @ [userMessage T content,
             assistantMessage T
               (generateFinancialAdvice (adviceOutcome T tx (budgetStatusOf P (budgets st) tx fresh)))
               (Some (t_id tx))]"
    by (rule handleSendMessage_advised [OF assms(1) fresh])
  show ?thesis
    unfolding Let_def using pos status zero below msgs by blast
qed

subsection \<open>Concrete turns\<close>

text \<open>The state of the component before the first fetch (the initial values of its
  \<^verbatim>\<open>useState\<close> calls), over a given store.\<close>

definition zeroSummary :: FinancialSummary where
  "zeroSummary =
     \<lparr>totalIncome = 0, totalExpense = 0, balance = 0, expensesByCategory = [],
      monthlyCashflow = [], dailyExpenses = []\<rparr>"

definition blankApp :: "Storage \<Rightarrow> AppState" where
  "blankApp s =
     \<lparr>storage = s, transactions = [], budgets = [], goals = [], summary = zeroSummary,
      messages = [], isLoading = True, isProcessing = False\<rparr>"

definition exApp :: AppState where
  "exApp = fetchData utcPlatform (blankApp exStore)"

definition lunchData :: ParsedData where
  "lunchData =
     \<lparr>p_type = Some EXPENSE, p_amount = Some 50, p_category = Some ''Food'',
      p_description = Some ''Lunch'', p_date = Some ''2024-03-05''\<rparr>"

definition lunchTx :: "string option \<Rightarrow> Transaction" where
  "lunchTx d =
     \<lparr>t_id = ''t1'', t_date = ''2024-03-05T00:00:00.000Z'', t_type = EXPENSE, t_amount = 50,
      t_category = ''Food'', t_description = d, t_merchant = None, t_paymentMethod = None\<rparr>"

definition lunchSummary :: FinancialSummary where
  "lunchSummary =
     \<lparr>totalIncome = 5000, totalExpense = 150, balance = 4850,
      expensesByCategory = [\<lparr>name = ''Food'', value = 150\<rparr>],
      monthlyCashflow = [\<lparr>cf_name = ''mar.'', income = 5000, expense = 150\<rparr>],
      dailyExpenses =
        [\<lparr>date = ''02/03'', amount = 100, originalDate = ''2024-03-02''\<rparr>,
         \<lparr>date = ''05/03'', amount = 50, originalDate = ''2024-03-05''\<rparr>]\<rparr>"

definition exTurn :: "payload response \<Rightarrow> string response \<Rightarrow> Turn" where
  "exTurn p a =
     \<lparr>uuidUser = ''u1'', uuidTransaction = ''t1'', uuidReply = ''r1'', nowUser = 1000,
      nowReply = 2000, parseOutcome = p, adviceOutcome = (\<lambda>tx status. a)\<rparr>"

lemma lunch_accepted:
  "validTransaction (parseTransaction utcPlatform (parseOutcome (exTurn (Text (Data lunchData)) a))
     (uuidTransaction (exTurn (Text (Data lunchData)) a))) = Some (lunchTx (Some ''Lunch''))"
  by (simp add: exTurn_def lunchData_def lunchTx_def validTransaction_def parseTransaction_def
      utcPlatform_def isIsoString_def isIsoDate_def isDigit_def)

lemma lunch_summary:
  "calculateSummary utcPlatform (addTransaction (lunchTx d) exStore) = Inr lunchSummary"
  by code_simp

definition exSummary :: FinancialSummary where
  "exSummary =
     \<lparr>totalIncome = 5000, totalExpense = 100, balance = 4900,
      expensesByCategory = [\<lparr>name = ''Food'', value = 100\<rparr>],
      monthlyCashflow = [\<lparr>cf_name = ''mar.'', income = 5000, expense = 100\<rparr>],
      dailyExpenses = [\<lparr>date = ''02/03'', amount = 100, originalDate = ''2024-03-02''\<rparr>]\<rparr>"

lemma ex_summary: "calculateSummary utcPlatform exStore = Inr exSummary"
  by code_simp

lemma exApp_fields:
  "storage exApp = exStore" "messages exApp = []" "budgets exApp = getBudgets exStore"
  by (simp_all add: exApp_def blankApp_def fetchData_def ex_summary)




lemma lunch_turn_store:
  "storage st = exStore \<Longrightarrow>
   storage (handleSendMessage utcPlatform (exTurn (Text (Data lunchData)) a) content st) =
     addTransaction (lunchTx (Some ''Lunch'')) exStore"
  using handleSendMessage_persisted [OF lunch_accepted, of a content st] by simp

lemma lunch_turn_summary:
  "storage st = exStore \<Longrightarrow>
   calculateSummary utcPlatform
     (storage (handleSendMessage utcPlatform (exTurn (Text (Data lunchData)) a) content st)) =
   Inr lunchSummary"
  by (simp add: lunch_turn_store lunch_summary)

lemma lunch_turn_positive:
  "storage st = exStore \<Longrightarrow>
   list_all (\<lambda>t. 0 < t_amount t)
     (getTransactions (storage (handleSendMessage utcPlatform (exTurn (Text (Data lunchData)) a) content st)))"
  by (simp add: lunch_turn_store addTransaction_def getTransactions_def exStore_def mkTx_def
      lunchTx_def)



text \<open>The example state with the limit of its only budget changed.\<close>

definition limitApp :: "rat \<Rightarrow> AppState" where
  "limitApp l = exApp\<lparr>budgets := [mkBudget ''p'' ''Food'' l]\<rparr>"

lemma limitApp_fields:
  "storage (limitApp l) = exStore" "messages (limitApp l) = []"
  "budgets (limitApp l) = [mkBudget ''p'' ''Food'' l]"
  by (simp_all add: limitApp_def exApp_fields)

lemma limit_budget:
  "find (\<lambda>b. toLowerCase utcPlatform (b_category b) = toLowerCase utcPlatform (t_category (lunchTx d)))
     (budgets (limitApp l)) = Some (mkBudget ''p'' ''Food'' l)"
  by (simp add: limitApp_fields mkBudget_def lunchTx_def utcPlatform_def)

lemma floor_example: "\<lfloor>- (299 / 2) :: rat\<rfloor> = - 150"
  by (simp add: floor_eq_iff)

text \<open>Counterexample to claim C5 as stated: with a spend of 150 the status computed for a
  limit of 0 carries the percentage \<^verbatim>\<open>Infinity\<close>, and for a limit of -100 the percentage
  -150. A limit clamped to a positive value would give a finite percentage above zero
  (\<open>percentage_finite\<close>).\<close>

theorem zero_limit_divides_unclamped:
  "budgetStatusOf utcPlatform [mkBudget ''p'' ''Food'' 0] (lunchTx (Some ''Lunch'')) lunchSummary =
     OverBudget 150 150 PosInfinity \<and>
   budgetStatusOf utcPlatform [mkBudget ''p'' ''Food'' (- 100)] (lunchTx (Some ''Lunch'')) lunchSummary =
     OverBudget 250 150 (Finite (- 150))"
  by (simp add: budgetStatusOf_def categorySpendOf_def orZero_def lunchSummary_def lunchTx_def
      mkBudget_def utcPlatform_def jsDivide_def jsTimes_def Math_round_def floor_example)

theorem nonpositive_limit_unclamped_over_budget_witness:
  "validTransaction (parseTransaction utcPlatform (parseOutcome (exTurn (Text (Data lunchData)) NoText))
     (uuidTransaction (exTurn (Text (Data lunchData)) NoText))) = Some (lunchTx (Some ''Lunch'')) \<and>
   list_all (\<lambda>t. 0 < t_amount t)
     (getTransactions (storage (handleSendMessage utcPlatform (exTurn (Text (Data lunchData)) NoText)
        ''Gastei 50'' (limitApp 0)))) \<and>
   b_limit (mkBudget ''p'' ''Food'' 0) \<le> 0 \<and> b_limit (mkBudget ''p'' ''Food'' (- 100)) \<le> 0 \<and>
   budgetStatusOf utcPlatform (budgets (limitApp 0)) (lunchTx (Some ''Lunch'')) lunchSummary =
     OverBudget 150 150 PosInfinity \<and>
   budgetStatusOf utcPlatform (budgets (limitApp (- 100))) (lunchTx (Some ''Lunch'')) lunchSummary =
     OverBudget 250 150 (Finite (- 150))"
proof -
  let ?T = "exTurn (Text (Data lunchData)) NoText"
  have ty: "t_type (lunchTx (Some ''Lunch'')) = EXPENSE" by (simp add: lunchTx_def)
  have lim: "b_limit (mkBudget ''p'' ''Food'' 0) \<le> 0" "b_limit (mkBudget ''p'' ''Food'' (- 100)) \<le> 0"
    "b_limit (mkBudget ''p'' ''Food'' 0) = 0" "b_limit (mkBudget ''p'' ''Food'' (- 100)) = - 100"
    by (simp_all add: mkBudget_def)
  have spent: "categorySpendOf lunchSummary (t_category (lunchTx (Some ''Lunch''))) = 150"
    by (simp add: categorySpendOf_def lunchSummary_def lunchTx_def orZero_def)
  have pct: "Math_round (jsTimes (jsDivide 150 0) 100) = PosInfinity"
    "Math_round (jsTimes (jsDivide 150 (- 100)) 100) = Finite (- 150)"
    by (simp_all add: jsDivide_def jsTimes_def Math_round_def floor_example)
  from nonpositive_limit_unclamped_over_budget
    [OF lunch_accepted [of NoText] ty limit_budget [where d = "Some ''Lunch''" and l = 0]
      lunch_turn_summary [where st = "limitApp (0)" and a = NoText and content = "''Gastei 50''", OF limitApp_fields(1)] lim(1)
      lunch_turn_positive [where st = "limitApp (0)" and a = NoText and content = "''Gastei 50''", OF limitApp_fields(1)]]
  have zero: "budgetStatusOf utcPlatform (budgets (limitApp 0)) (lunchTx (Some ''Lunch'')) lunchSummary =
     OverBudget 150 150 PosInfinity"
    unfolding Let_def spent lim(3) pct by simp
  from nonpositive_limit_unclamped_over_budget
    [OF lunch_accepted [of NoText] ty limit_budget [where d = "Some ''Lunch''" and l = "- 100"]
      lunch_turn_summary [where st = "limitApp (- 100)" and a = NoText and content = "''Gastei 50''", OF limitApp_fields(1)] lim(2)
      lunch_turn_positive [where st = "limitApp (- 100)" and a = NoText and content = "''Gastei 50''", OF limitApp_fields(1)]]
  have neg: "budgetStatusOf utcPlatform (budgets (limitApp (- 100))) (lunchTx (Some ''Lunch'')) lunchSummary =
     OverBudget 250 150 (Finite (- 150))"
    unfolding Let_def spent lim(4) pct by simp
  from zero neg lim(1,2) lunch_accepted [of NoText]
    lunch_turn_positive [where st = "limitApp (0)" and a = NoText and content = "''Gastei 50''", OF limitApp_fields(1)]
  show ?thesis by simp
qed

section \<open>The audio controller (components/ChatInterface.tsx)\<close>

subsection \<open>Playback\<close>

text \<open>
  The state of the component that playback reads and writes: the two React states
  \<^verbatim>\<open>playingId\<close> and \<^verbatim>\<open>isPaused\<close>, and the two refs. An \<^verbatim>\<open>AudioBufferSourceNode\<close> is
  named by the number of nodes created before it. \<open>started\<close> lists the nodes that have
  been started and have neither been stopped nor ended: the streams that sound when
  the context runs. \<open>awaiting\<close> lists the calls of \<^verbatim>\<open>playAudio\<close> that are suspended at
  \<^verbatim>\<open>await GeminiService.generateSpeech(text)\<close>, by message id.
\<close>

datatype ctxState = Running | Suspended | Closed

record Playback =
  playingId :: "string option"
  isPaused :: bool
  audioCtx :: "ctxState option"
  sourceNode :: "nat option"
  started :: "nat list"
  nodes :: nat
  awaiting :: "string list"

definition stopAudio :: "Playback \<Rightarrow> Playback" where
  "stopAudio p =
     (let p1 = (case sourceNode p of
                  Some k \<Rightarrow> p\<lparr>started := removeAll k (started p), sourceNode := None\<rparr>
                | None \<Rightarrow> p)
      in p1\<lparr>playingId := None, isPaused := False\<rparr>)"

text \<open>\<^verbatim>\<open>suspend\<close> and \<^verbatim>\<open>resume\<close> reject on a closed context, and then the state is not
  set.\<close>

definition pauseAudio :: "Playback \<Rightarrow> Playback" where
  "pauseAudio p =
     (if audioCtx p \<noteq> None \<and> audioCtx p \<noteq> Some Closed \<and> playingId p \<noteq> None
      then p\<lparr>audioCtx := Some Suspended, isPaused := True\<rparr> else p)"

definition resumeAudio :: "Playback \<Rightarrow> Playback" where
  "resumeAudio p =
     (if audioCtx p \<noteq> None \<and> audioCtx p \<noteq> Some Closed \<and> playingId p \<noteq> None
      then p\<lparr>audioCtx := Some Running, isPaused := False\<rparr> else p)"

text \<open>\<^verbatim>\<open>playAudio\<close> up to its \<^verbatim>\<open>await\<close>: a toggle for the message that is playing,
  otherwise \<^verbatim>\<open>stopAudio()\<close>, \<^verbatim>\<open>setPlayingId(msgId)\<close> and the request for the speech.\<close>

definition playAudio :: "string \<Rightarrow> Playback \<Rightarrow> Playback" where
  "playAudio msgId p =
     (if playingId p = Some msgId
      then (if isPaused p then resumeAudio p else pauseAudio p)
      else (let p1 = stopAudio p
            in p1\<lparr>playingId := Some msgId, awaiting := awaiting p1 @ [msgId]\<rparr>))"

text \<open>\<^verbatim>\<open>playAudio\<close> after its \<^verbatim>\<open>await\<close>, for a suspended call for \<open>msgId\<close>: with a buffer, a
  context is made or resumed as needed, and a new source node is created, started and
  stored in the ref; without one, \<^verbatim>\<open>setPlayingId(null)\<close>. Neither \<^verbatim>\<open>playingId\<close> nor the
  ref is read here. \<^verbatim>\<open>generateSpeech\<close> catches its own errors and returns null.\<close>

definition speechArrived :: "string \<Rightarrow> bool \<Rightarrow> Playback \<Rightarrow> Playback" where
  "speechArrived msgId buffer p =
     (if msgId \<in> set (awaiting p)
      then (let p1 = p\<lparr>awaiting := remove1 msgId (awaiting p)\<rparr>
            in if buffer
               then p1\<lparr>audioCtx := Some Running, started := started p1 @ [nodes p1],
                       sourceNode := Some (nodes p1), nodes := Suc (nodes p1)\<rparr>
               else p1\<lparr>playingId := None\<rparr>)
      else p)"

text \<open>The \<^verbatim>\<open>onended\<close> handler of node \<open>k\<close>, which runs when the node has played to its end
  or has been stopped.\<close>

definition sourceEnded :: "nat \<Rightarrow> Playback \<Rightarrow> Playback" where
  "sourceEnded k p =
     p\<lparr>started := removeAll k (started p), playingId := None, isPaused := False,
       sourceNode := None\<rparr>"

datatype playbackEvent = Play string | Speech string bool | Stop | Ended nat

fun playbackStep :: "Playback \<Rightarrow> playbackEvent \<Rightarrow> Playback" where
  "playbackStep p (Play msgId) = playAudio msgId p"
| "playbackStep p (Speech msgId buffer) = speechArrived msgId buffer p"
| "playbackStep p Stop = stopAudio p"
| "playbackStep p (Ended k) = sourceEnded k p"

definition playbackRun :: "Playback \<Rightarrow> playbackEvent list \<Rightarrow> Playback" where
  "playbackRun p es = foldl playbackStep p es"

definition initPlayback :: Playback where
  "initPlayback =
     \<lparr>playingId = None, isPaused = False, audioCtx = None, sourceNode = None, started = [],
      nodes = 0, awaiting = []\<rparr>"

subsection \<open>Capture\<close>

text \<open>
  The state that recording reads and writes. A \<^verbatim>\<open>MediaRecorder\<close> is named by the number
  of recorders created before it; \<open>recording\<close> lists the recorders that are running;
  \<open>alerts\<close> counts the alerts shown.
\<close>

record Capture =
  isRecording :: bool
  isTranscribing :: bool
  mediaRecorder :: "nat option"
  audioChunks :: "string list"
  recorders :: nat
  recording :: "nat list"
  input :: string
  alerts :: nat




text \<open>\<^verbatim>\<open>ondataavailable\<close>, the start of \<^verbatim>\<open>onloadend\<close> after the recorder stopped, and its
  end when the transcription has returned a text or null.\<close>

definition dataAvailable :: "string \<Rightarrow> Capture \<Rightarrow> Capture" where
  "dataAvailable blob c = (if blob \<noteq> [] then c\<lparr>audioChunks := audioChunks c @ [blob]\<rparr> else c)"

definition transcriptionStarts :: "Capture \<Rightarrow> Capture" where
  "transcriptionStarts c = c\<lparr>isTranscribing := True\<rparr>"

definition transcriptionEnds :: "string option \<Rightarrow> Capture \<Rightarrow> Capture" where
  "transcriptionEnds transcription c =
     (case transcription of
        Some t \<Rightarrow> (if t \<noteq> [] then c\<lparr>input := t, isTranscribing := False\<rparr>
                   else c\<lparr>isTranscribing := False\<rparr>)
      | None \<Rightarrow> c\<lparr>isTranscribing := False\<rparr>)"



subsection \<open>Properties of playback\<close>

text \<open>A state in which no call of \<^verbatim>\<open>playAudio\<close> is suspended and the ref holds the only
  started node, if there is one.\<close>

definition settled :: "Playback \<Rightarrow> bool" where
  "settled p \<longleftrightarrow>
     awaiting p = [] \<and>
     (case sourceNode p of None \<Rightarrow> started p = [] | Some k \<Rightarrow> started p = [k])"

lemma settled_switch_releases_first:
  assumes "settled p" and "playingId p \<noteq> Some b"
  shows "started (playAudio b p) = [] \<and> sourceNode (playAudio b p) = None \<and>
         playingId (playAudio b p) = Some b \<and>
         started (speechArrived b True (playAudio b p)) = [nodes p] \<and>
         playingId (speechArrived b True (playAudio b p)) = Some b \<and>
         settled (speechArrived b True (playAudio b p))"
  using assms
  by (auto simp: settled_def playAudio_def stopAudio_def speechArrived_def Let_def
      split: option.splits)

text \<open>Claim C6 says that a request for another message first forces the active stream to
  Idle, and that two streams are never active together. The code breaks it on this run:
  the message \<open>A\<close> is requested and is the one playing for the component (\<open>playingId\<close>)
  while its speech is still being synthesised; \<open>B\<close> is requested then. \<^verbatim>\<open>stopAudio\<close> finds
  no node in the ref and stops nothing; both suspended calls later start a node each,
  and the two streams are active together, the first out of reach of \<^verbatim>\<open>stopAudio\<close>. From
  a settled state the old node is released first (\<open>settled_switch_releases_first\<close>).\<close>

theorem overlapping_streams_when_switching_during_synthesis:
  "playingId (playbackRun initPlayback [Play ''A'']) = Some ''A'' \<and>
   isPaused (playbackRun initPlayback [Play ''A'']) = False \<and>
   started (playbackRun initPlayback [Play ''A'', Play ''B'']) = [] \<and>
   started (playbackRun initPlayback [Play ''A'', Play ''B'', Speech ''A'' True, Speech ''B'' True])
     = [0, 1] \<and>
   playingId (playbackRun initPlayback [Play ''A'', Play ''B'', Speech ''A'' True, Speech ''B'' True])
     = Some ''B'' \<and>
   sourceNode (playbackRun initPlayback [Play ''A'', Play ''B'', Speech ''A'' True, Speech ''B'' True])
     = Some 1"
  by (simp add: playbackRun_def initPlayback_def playAudio_def stopAudio_def speechArrived_def
      Let_def)

subsection \<open>Properties of capture\<close>




end
